theory Spec2Isabelle
  imports Complex_Main "HOL-Library.Word"
begin

section \<open>Strings and JSON values\<close>

text \<open>
  JavaScript strings are modelled as \<open>string\<close> (byte lists).  Three characters that
  cannot be written inside a string literal get a name.
\<close>

definition dquote :: char where "dquote = CHR 0x22"
definition bslash :: char where "bslash = CHR 0x5C"
definition apostrophe :: char where "apostrophe = CHR 0x27"

text \<open>\<open>String.prototype.includes\<close>: \<open>str_includes hay needle\<close> is \<open>hay.includes(needle)\<close>.\<close>

fun starts_with :: "string \<Rightarrow> string \<Rightarrow> bool" where
  "starts_with [] ys = True"
| "starts_with (x # xs) [] = False"
| "starts_with (x # xs) (y # ys) = (x = y \<and> starts_with xs ys)"

fun str_includes :: "string \<Rightarrow> string \<Rightarrow> bool" where
  "str_includes [] needle = (needle = [])"
| "str_includes (h # hs) needle = (starts_with needle (h # hs) \<or> str_includes hs needle)"

text \<open>Decimal rendering of a non-negative integer, as a template literal renders
  \<open>response.status\<close>.\<close>

definition digit_char :: "nat \<Rightarrow> char" where
  "digit_char d = char_of (48 + d)"

function dec_str :: "nat \<Rightarrow> string" where
  "dec_str n = (if n < 10 then [digit_char n] else dec_str (n div 10) @ [digit_char (n mod 10)])"
  by pat_completeness auto
termination
  by (relation "measure id") auto

declare dec_str.simps [simp del]

definition hex_lower :: "nat \<Rightarrow> char" where
  "hex_lower d = (if d < 10 then char_of (48 + d) else char_of (87 + d))"

definition hex_upper :: "nat \<Rightarrow> char" where
  "hex_upper d = (if d < 10 then char_of (48 + d) else char_of (55 + d))"

text \<open>
  The values \<open>JSON.parse\<close> and \<open>response.json()\<close> produce.  A number is the (finite)
  value of the parsed double; an object lists its own properties in the engine's
  enumeration order, each key once.  JavaScript's \<open>undefined\<close> is not a JSON value: a
  property read returns a \<open>json option\<close>, \<open>None\<close> for \<open>undefined\<close>.
\<close>

datatype json =
    JNull
  | JBool bool
  | JNum rat
  | JStr string
  | JArr "json list"
  | JObj "(string \<times> json) list"

text \<open>ToBoolean.\<close>

fun truthy :: "json \<Rightarrow> bool" where
  "truthy JNull = False"
| "truthy (JBool b) = b"
| "truthy (JNum n) = (n \<noteq> 0)"
| "truthy (JStr s) = (s \<noteq> [])"
| "truthy (JArr xs) = True"
| "truthy (JObj kvs) = True"

definition truthy_opt :: "json option \<Rightarrow> bool" where
  "truthy_opt v = (case v of None \<Rightarrow> False | Some j \<Rightarrow> truthy j)"

text \<open>
  \<open>v.name\<close> for a value \<open>v\<close> that is neither \<open>null\<close> nor \<open>undefined\<close>, and a name
  that no built-in prototype defines (the code reads \<open>error\<close>, \<open>channel\<close>,
  \<open>alternatives\<close>, \<open>transcript\<close>, \<open>is_final\<close>, \<open>access_token\<close>): only an object's
  own property answers.
\<close>

fun get_prop :: "json \<Rightarrow> string \<Rightarrow> json option" where
  "get_prop (JObj kvs) name = map_of kvs name"
| "get_prop v name = None"

text \<open>\<open>v[0]\<close> for a value that is neither \<open>null\<close> nor \<open>undefined\<close>: the first
  element of an array, the first character of a string, the property \<open>"0"\<close> of an
  object.\<close>

fun get_index0 :: "json \<Rightarrow> json option" where
  "get_index0 (JArr []) = None"
| "get_index0 (JArr (x # xs)) = Some x"
| "get_index0 (JStr []) = None"
| "get_index0 (JStr (c # cs)) = Some (JStr [c])"
| "get_index0 (JObj kvs) = map_of kvs ''0''"
| "get_index0 v = None"

text \<open>Optional chaining \<open>v?.name\<close> and \<open>v?.[0]\<close>: \<open>undefined\<close> when \<open>v\<close> is
  \<open>undefined\<close> or \<open>null\<close>.\<close>

definition opt_prop :: "json option \<Rightarrow> string \<Rightarrow> json option" where
  "opt_prop v name =
     (case v of None \<Rightarrow> None | Some JNull \<Rightarrow> None | Some j \<Rightarrow> get_prop j name)"

definition opt_index0 :: "json option \<Rightarrow> json option" where
  "opt_index0 v =
     (case v of None \<Rightarrow> None | Some JNull \<Rightarrow> None | Some j \<Rightarrow> get_index0 j)"

text \<open>\<open>JSON.stringify\<close> without indentation.  QuoteJSONString escapes the quote, the
  backslash and the control characters.  The rendering of a number is the platform's
  \<open>Number::toString\<close>, taken as the parameter \<open>nts\<close>.\<close>

definition escape_char :: "char \<Rightarrow> string" where
  "escape_char c =
     (let n = (of_char c :: nat) in
      if n = 8 then [bslash, CHR ''b'']
      else if n = 9 then [bslash, CHR ''t'']
      else if n = 10 then [bslash, CHR ''n'']
      else if n = 12 then [bslash, CHR ''f'']
      else if n = 13 then [bslash, CHR ''r'']
      else if c = dquote then [bslash, dquote]
      else if c = bslash then [bslash, bslash]
      else if n < 32 then [bslash, CHR ''u'', CHR ''0'', CHR ''0'', hex_lower (n div 16), hex_lower (n mod 16)]
      else [c])"

definition quote_json_string :: "string \<Rightarrow> string" where
  "quote_json_string s = dquote # concat (map escape_char s) @ [dquote]"

fun JSON_stringify :: "(rat \<Rightarrow> string) \<Rightarrow> json \<Rightarrow> string"
  and stringify_elements :: "(rat \<Rightarrow> string) \<Rightarrow> json list \<Rightarrow> string"
  and stringify_members :: "(rat \<Rightarrow> string) \<Rightarrow> (string \<times> json) list \<Rightarrow> string"
where
  "JSON_stringify nts JNull = ''null''"
| "JSON_stringify nts (JBool b) = (if b then ''true'' else ''false'')"
| "JSON_stringify nts (JNum n) = nts n"
| "JSON_stringify nts (JStr s) = quote_json_string s"
| "JSON_stringify nts (JArr xs) = ''['' @ stringify_elements nts xs @ '']''"
| "JSON_stringify nts (JObj kvs) = ''{'' @ stringify_members nts kvs @ ''}''"
| "stringify_elements nts [] = []"
| "stringify_elements nts [x] = JSON_stringify nts x"
| "stringify_elements nts (x # y # ys) =
     JSON_stringify nts x @ '','' @ stringify_elements nts (y # ys)"
| "stringify_members nts [] = []"
| "stringify_members nts [(k, v)] = quote_json_string k @ '':'' @ JSON_stringify nts v"
| "stringify_members nts ((k, v) # m # ms) =
     quote_json_string k @ '':'' @ JSON_stringify nts v @ '','' @ stringify_members nts (m # ms)"

section \<open>Token provider: \<open>lib/api.ts\<close>\<close>

text \<open>A thrown JavaScript error: its \<open>name\<close> and its \<open>message\<close>.\<close>

datatype js_error = JsError (err_name: string) (err_message: string)

text \<open>The two module constants, each read from the environment with a fallback
  (\<open>process.env.X || default\<close>).\<close>

record config =
  NEXT_PUBLIC_API_BASE_URL :: "string option"
  NEXT_PUBLIC_BEARER_TOKEN :: "string option"

definition or_default :: "string option \<Rightarrow> string \<Rightarrow> string" where
  "or_default v d = (case v of None \<Rightarrow> d | Some s \<Rightarrow> if s = [] then d else s)"

definition API_BASE_URL :: "config \<Rightarrow> string" where
  "API_BASE_URL cfg = or_default (NEXT_PUBLIC_API_BASE_URL cfg) ''https://api.scribemd.com''"

definition BEARER_TOKEN :: "config \<Rightarrow> string" where
  "BEARER_TOKEN cfg = or_default (NEXT_PUBLIC_BEARER_TOKEN cfg) ''''"

text \<open>The request handed to \<open>fetch\<close>, and the parts of the \<open>Response\<close> the code reads.
  \<open>json_body\<close> and \<open>text_body\<close> are the outcomes of \<open>response.json()\<close> and
  \<open>response.text()\<close>, either of which may reject.\<close>

record request =
  req_url :: string
  req_method :: string
  req_content_type :: string
  req_authorization :: string
  req_body :: string

record response =
  status :: nat
  statusText :: string
  content_type :: "string option"
  json_body :: "js_error + json"
  text_body :: "js_error + string"

definition response_ok :: "response \<Rightarrow> bool" where
  "response_ok r = (200 \<le> status r \<and> status r \<le> 299)"

definition grant_url :: "config \<Rightarrow> string" where
  "grant_url cfg = API_BASE_URL cfg @ ''/api/v1/auth/grant''"

text \<open>\<open>const token = authToken || BEARER_TOKEN\<close>.\<close>

definition bearer_of :: "config \<Rightarrow> string option \<Rightarrow> string" where
  "bearer_of cfg authToken = or_default authToken (BEARER_TOKEN cfg)"

definition grant_request :: "(rat \<Rightarrow> string) \<Rightarrow> config \<Rightarrow> string option \<Rightarrow> request" where
  "grant_request nts cfg authToken =
     \<lparr> req_url = grant_url cfg,
       req_method = ''POST'',
       req_content_type = ''application/json'',
       req_authorization = ''Bearer '' @ bearer_of cfg authToken,
       req_body = JSON_stringify nts (JObj [(''type'', JStr ''websocket'')]) \<rparr>"

text \<open>The body of the \<open>if (!response.ok)\<close> branch: \<open>errorData\<close> is the parsed body when
  the content type mentions JSON, the raw text otherwise, and a fixed string when reading
  the body throws.  A raw text is kept as \<open>JStr\<close>: \<open>typeof errorData === 'string'\<close>.\<close>

definition read_errorData :: "response \<Rightarrow> json" where
  "read_errorData r =
     (if (case content_type r of None \<Rightarrow> False
          | Some ct \<Rightarrow> ct \<noteq> [] \<and> str_includes ct ''application/json'')
      then (case json_body r of Inl e \<Rightarrow> JStr ''Could not parse error response'' | Inr j \<Rightarrow> j)
      else (case text_body r of Inl e \<Rightarrow> JStr ''Could not parse error response''
            | Inr t \<Rightarrow> JStr t))"

definition errorData_text :: "(rat \<Rightarrow> string) \<Rightarrow> json \<Rightarrow> string" where
  "errorData_text nts d = (case d of JStr s \<Rightarrow> s | _ \<Rightarrow> JSON_stringify nts d)"

definition failed_message :: "(rat \<Rightarrow> string) \<Rightarrow> response \<Rightarrow> string" where
  "failed_message nts r =
     ''Failed to fetch WebSocket token: '' @ dec_str (status r) @ '' '' @ statusText r @ ''. ''
     @ ''Error: '' @ errorData_text nts (read_errorData r)"

text \<open>The success log evaluates \<open>data.access_token?.substring(0, 20)\<close>, which throws a
  \<open>TypeError\<close> when \<open>data\<close> is \<open>null\<close> and when \<open>access_token\<close> is present, not
  \<open>null\<close> and not a string (no other JSON value has a \<open>substring\<close> method).  The
  messages are V8's wording.\<close>

definition null_access_error :: js_error where
  "null_access_error =
     JsError ''TypeError''
       (''Cannot read properties of null (reading '' @ [apostrophe] @ ''access_token''
        @ [apostrophe] @ '')'')"

definition not_a_function_error :: js_error where
  "not_a_function_error =
     JsError ''TypeError'' ''data.access_token?.substring is not a function''"

definition log_token :: "json \<Rightarrow> js_error option" where
  "log_token data =
     (case data of
        JNull \<Rightarrow> Some null_access_error
      | _ \<Rightarrow> (case get_prop data ''access_token'' of
                None \<Rightarrow> None
              | Some JNull \<Rightarrow> None
              | Some (JStr s) \<Rightarrow> None
              | Some _ \<Rightarrow> Some not_a_function_error))"

text \<open>The \<open>try\<close> block: \<open>Inl\<close> is a value thrown inside it.\<close>

definition try_block ::
  "(rat \<Rightarrow> string) \<Rightarrow> (request \<Rightarrow> js_error + response) \<Rightarrow> request \<Rightarrow> js_error + json" where
  "try_block nts fetch req =
     (case fetch req of
        Inl e \<Rightarrow> Inl e
      | Inr r \<Rightarrow>
          if \<not> response_ok r then Inl (JsError ''Error'' (failed_message nts r))
          else (case json_body r of
                  Inl e \<Rightarrow> Inl e
                | Inr data \<Rightarrow>
                    (case log_token data of Some e \<Rightarrow> Inl e | None \<Rightarrow> Inr data)))"

text \<open>The \<open>catch\<close> block: every path throws.\<close>

definition catch_block :: "string \<Rightarrow> js_error \<Rightarrow> js_error" where
  "catch_block url e =
     (if err_name e = ''TypeError'' \<and> str_includes (err_message e) ''fetch''
      then JsError ''Error''
             (''Network error: Could not reach '' @ url @ ''. ''
              @ ''Please check your internet connection and ensure the API is accessible. ''
              @ ''Original error: '' @ err_message e)
      else if str_includes (err_message e) ''Failed to fetch WebSocket token'' then e
      else JsError ''Error'' (''Unexpected error fetching WebSocket token: '' @ err_message e))"

text \<open>\<open>fetchWebSocketToken(authToken?)\<close>.  The result is the \<open>data\<close> it returns, which
  TypeScript types as \<open>WebSocketToken\<close> without a check at run time, or the error it
  throws.\<close>

definition fetchWebSocketToken ::
  "(rat \<Rightarrow> string) \<Rightarrow> config \<Rightarrow> (request \<Rightarrow> js_error + response) \<Rightarrow> string option
     \<Rightarrow> js_error + json" where
  "fetchWebSocketToken nts cfg fetch authToken =
     (case try_block nts fetch (grant_request nts cfg authToken) of
        Inl e \<Rightarrow> Inl (catch_block (grant_url cfg) e)
      | Inr data \<Rightarrow> Inr data)"

text \<open>The Credential shape \<open>{access_token, expires_at, key_type}\<close>, three strings.\<close>

definition is_string_prop :: "json \<Rightarrow> string \<Rightarrow> bool" where
  "is_string_prop j name = (case get_prop j name of Some (JStr s) \<Rightarrow> True | _ \<Rightarrow> False)"

definition credential_shape :: "json \<Rightarrow> bool" where
  "credential_shape j =
     (is_string_prop j ''access_token'' \<and> is_string_prop j ''expires_at''
      \<and> is_string_prop j ''key_type'')"

section \<open>PCM conversion: \<open>processor.onaudioprocess\<close>\<close>

text \<open>
  A JavaScript Number as the audio callback sees it.  A finite Float32 sample is a
  dyadic rational with a 24-bit significand, so it is a double exactly, and its product
  with \<open>0x7FFF\<close> (15 bits) has at most 39 significant bits: the double multiplication
  rounds nothing, and \<open>Fin\<close> carries the exact value.  The sign of zero is dropped; it
  does not survive the conversion to Int16.
\<close>

datatype jsnum = Fin rat | PInf | NInf | NaN

fun Math_min :: "jsnum \<Rightarrow> jsnum \<Rightarrow> jsnum" where
  "Math_min NaN b = NaN"
| "Math_min a NaN = NaN"
| "Math_min NInf b = NInf"
| "Math_min a NInf = NInf"
| "Math_min PInf b = b"
| "Math_min a PInf = a"
| "Math_min (Fin x) (Fin y) = Fin (min x y)"

fun Math_max :: "jsnum \<Rightarrow> jsnum \<Rightarrow> jsnum" where
  "Math_max NaN b = NaN"
| "Math_max a NaN = NaN"
| "Math_max PInf b = PInf"
| "Math_max a PInf = PInf"
| "Math_max NInf b = b"
| "Math_max a NInf = a"
| "Math_max (Fin x) (Fin y) = Fin (max x y)"

text \<open>\<open>x * 0x7FFF\<close>.\<close>

fun times_0x7FFF :: "jsnum \<Rightarrow> jsnum" where
  "times_0x7FFF (Fin q) = Fin (q * 32767)"
| "times_0x7FFF PInf = PInf"
| "times_0x7FFF NInf = NInf"
| "times_0x7FFF NaN = NaN"

text \<open>Storing a Number into an \<open>Int16Array\<close> applies ToInt16: not-a-number and the
  infinities become 0, a finite value is truncated and reduced modulo \<open>2 ^ 16\<close>.\<close>

definition js_truncate :: "rat \<Rightarrow> int" where
  "js_truncate q = (if q < 0 then - \<lfloor>- q\<rfloor> else \<lfloor>q\<rfloor>)"

fun ToInt16 :: "jsnum \<Rightarrow> 16 word" where
  "ToInt16 (Fin q) = word_of_int (js_truncate q)"
| "ToInt16 v = 0"

text \<open>The loop body: \<open>clamped = Math.max(-1, Math.min(1, inputData[i]))\<close>, then
  \<open>pcmData[i] = clamped * 0x7FFF\<close>.\<close>

definition pcm_sample :: "jsnum \<Rightarrow> 16 word" where
  "pcm_sample x =
     (let clamped = Math_max (Fin (- 1)) (Math_min (Fin 1) x)
      in ToInt16 (times_0x7FFF clamped))"

function pcm_loop :: "jsnum list \<Rightarrow> nat \<Rightarrow> 16 word list \<Rightarrow> 16 word list" where
  "pcm_loop inputData i pcmData =
     (if i < length inputData
      then pcm_loop inputData (Suc i) (pcmData[i := pcm_sample (inputData ! i)])
      else pcmData)"
  by pat_completeness auto
termination
  by (relation "measure (\<lambda>(inputData, i, pcmData). length inputData - i)") auto

declare pcm_loop.simps [simp del]

text \<open>\<open>new Int16Array(inputData.length)\<close> is zero-filled; the loop then fills it.\<close>

definition convert_frame :: "jsnum list \<Rightarrow> 16 word list" where
  "convert_frame inputData = pcm_loop inputData 0 (replicate (length inputData) 0)"

text \<open>\<open>pcmData.buffer\<close>: the bytes behind the typed array, two per element, in the
  byte order of the platform, which is little-endian wherever browsers run.\<close>

definition buffer_of :: "16 word list \<Rightarrow> 8 word list" where
  "buffer_of pcmData = concat (map (\<lambda>w. [ucast w, ucast (drop_bit 8 w)]) pcmData)"

datatype ReadyState = CONNECTING | OPEN | CLOSING | CLOSED

text \<open>The callback sends the buffer only while the socket is open (\<open>Some\<close> is the
  argument of \<open>ws.send\<close>); the chunk counter only drives logging.\<close>

definition onaudioprocess :: "ReadyState \<Rightarrow> jsnum list \<Rightarrow> 8 word list option" where
  "onaudioprocess ws_readyState inputData =
     (if ws_readyState = OPEN then Some (buffer_of (convert_frame inputData)) else None)"

text \<open>The conversion in the words of the specification:
  \<open>round_toward_zero(clamp(sample, -1.0, 1.0) * 32767)\<close>.\<close>

definition clamp :: "rat \<Rightarrow> rat \<Rightarrow> rat \<Rightarrow> rat" where
  "clamp x lo hi = (if x < lo then lo else if hi < x then hi else x)"

definition round_toward_zero :: "rat \<Rightarrow> int" where
  "round_toward_zero x = (if 0 \<le> x then \<lfloor>x\<rfloor> else \<lceil>x\<rceil>)"

definition spec_sample_i16 :: "rat \<Rightarrow> int" where
  "spec_sample_i16 s = round_toward_zero (clamp s (- 1) 1 * 32767)"

section \<open>Session controller: \<open>TranscriptionClient\<close>\<close>

datatype ConnectionState = idle | connecting | connected | error

record WebSocketToken =
  access_token :: string
  expires_at :: string
  key_type :: string

record WebSocket =
  url :: string
  readyState :: ReadyState

datatype MediaStream = MediaStream (getTracks: "nat list")

datatype AudioContext = AudioContext (sampleRate: nat)

datatype ScriptProcessorNode =
  ScriptProcessorNode (bufferSize: nat) (inputChannels: nat) (outputChannels: nat)

text \<open>What the component does to the outside world, in the order it does it.\<close>

datatype effect =
    FetchToken
  | GetUserMedia nat nat
  | NewWebSocket string
  | NewAudioContext nat
  | CreateMediaStreamSource
  | CreateScriptProcessor nat nat nat
  | ConnectNodes
  | ProcessorDisconnect
  | ContextClose
  | TrackStop nat
  | WsClose
  | Alert string

text \<open>The React state and the refs of the component, with the trace of effects.  The
  transcript holds whatever values the handler stored: TypeScript types them as strings,
  the handler stores any truthy value it extracted.\<close>

record session =
  connectionState :: ConnectionState
  transcript :: "json list"
  interimTranscript :: json
  service :: string
  language :: string
  wsRef :: "WebSocket option"
  wsTokenRef :: "WebSocketToken option"
  audioStreamRef :: "MediaStream option"
  audioContextRef :: "AudioContext option"
  audioProcessorRef :: "ScriptProcessorNode option"
  effects :: "effect list"

definition emit :: "effect \<Rightarrow> session \<Rightarrow> session" where
  "emit e s = s\<lparr>effects := effects s @ [e]\<rparr>"

text \<open>
  The mocked environment of one call of \<open>initializeTranscription\<close>: the clock
  (\<open>new Date()\<close>, in milliseconds), the platform's date parser (\<open>None\<close> is an invalid
  date), and the outcome of each call that can throw: \<open>await fetchWebSocketToken()\<close>
  (typed \<open>WebSocketToken\<close>), \<open>getUserMedia\<close>, \<open>new WebSocket\<close>, \<open>new AudioContext\<close>.
  The call runs to its end without another handler in between.
\<close>

record env =
  now :: int
  Date_parse :: "string \<Rightarrow> int option"
  fetch_token :: "js_error + WebSocketToken"
  getUserMedia :: "js_error + MediaStream"
  new_WebSocket :: "js_error option"
  new_AudioContext :: "js_error option"

text \<open>\<open>encodeURIComponent\<close> on bytes: the unreserved characters stay, every other
  byte becomes \<open>%XX\<close>.\<close>

definition unreserved :: "char \<Rightarrow> bool" where
  "unreserved c =
     (let n = (of_char c :: nat) in
      (65 \<le> n \<and> n \<le> 90) \<or> (97 \<le> n \<and> n \<le> 122) \<or> (48 \<le> n \<and> n \<le> 57)
      \<or> c \<in> set ''-_.!~*()'' \<or> c = apostrophe)"

definition encodeURIComponent :: "string \<Rightarrow> string" where
  "encodeURIComponent s =
     concat (map (\<lambda>c. if unreserved c then [c]
                       else [CHR ''%'', hex_upper (of_char c div 16), hex_upper (of_char c mod 16)]) s)"

definition wsUrl_of :: "WebSocketToken \<Rightarrow> string \<Rightarrow> string \<Rightarrow> string" where
  "wsUrl_of wsToken lang svc =
     ''wss://stt.scribemd.ai/v1/listen?access_token='' @ encodeURIComponent (access_token wsToken)
     @ ''&language='' @ lang @ ''&service='' @ svc"

text \<open>\<open>new Date(wsToken.expires_at) <= new Date()\<close>: a comparison with an invalid date
  is false.\<close>

definition expired :: "env \<Rightarrow> WebSocketToken \<Rightarrow> bool" where
  "expired env t = (case Date_parse env (expires_at t) of None \<Rightarrow> False | Some e \<Rightarrow> e \<le> now env)"

text \<open>The \<open>catch\<close> of \<open>initializeTranscription\<close>.\<close>

definition init_failed :: "js_error \<Rightarrow> session \<Rightarrow> session" where
  "init_failed e s =
     emit (Alert (''Failed to initialize transcription: '' @ err_message e))
       (s\<lparr>connectionState := error\<rparr>)"

text \<open>Step 1 of \<open>initializeTranscription\<close>.  \<open>fetching\<close> is the condition
  \<open>!wsToken || new Date(wsToken.expires_at) <= new Date()\<close>; \<open>step1_token\<close> is the
  value of \<open>wsToken\<close> after the step, or what \<open>fetchWebSocketToken\<close> threw.\<close>

definition fetching :: "env \<Rightarrow> session \<Rightarrow> bool" where
  "fetching env s = (case wsTokenRef s of None \<Rightarrow> True | Some t \<Rightarrow> expired env t)"

definition step1_token :: "env \<Rightarrow> session \<Rightarrow> js_error + WebSocketToken" where
  "step1_token env s =
     (case wsTokenRef s of
        None \<Rightarrow> fetch_token env
      | Some t \<Rightarrow> if expired env t then fetch_token env else Inr t)"

definition initializeTranscription :: "env \<Rightarrow> session \<Rightarrow> session" where
  "initializeTranscription env s0 =
     (let s1 = s0\<lparr>connectionState := connecting\<rparr>;
          s2 = (if fetching env s1 then emit FetchToken s1 else s1)
      in case step1_token env s1 of
           Inl e \<Rightarrow> init_failed e s2
         | Inr wsToken \<Rightarrow>
            (let s3 = (if fetching env s1 then s2\<lparr>wsTokenRef := Some wsToken\<rparr> else s2);
                 s4 = emit (GetUserMedia 1 16000) s3
             in case getUserMedia env of
                  Inl e \<Rightarrow> init_failed e s4
                | Inr stream \<Rightarrow>
                   (let s5 = s4\<lparr>audioStreamRef := Some stream\<rparr>;
                        wsUrl = wsUrl_of wsToken (language s5) (service s5);
                        s6 = emit (NewWebSocket wsUrl) s5
                    in case new_WebSocket env of
                         Some e \<Rightarrow> init_failed e s6
                       | None \<Rightarrow>
                          (let s7 = s6\<lparr>wsRef := Some \<lparr>url = wsUrl, readyState = CONNECTING\<rparr>\<rparr>;
                               s8 = emit (NewAudioContext 16000) s7
                           in case new_AudioContext env of
                                Some e \<Rightarrow> init_failed e s8
                              | None \<Rightarrow>
                                 (let s9 = s8\<lparr>audioContextRef := Some (AudioContext 16000)\<rparr>;
                                      s10 = emit CreateMediaStreamSource s9;
                                      s11 = emit (CreateScriptProcessor 4096 1 1) s10;
                                      s12 = s11\<lparr>audioProcessorRef :=
                                                  Some (ScriptProcessorNode 4096 1 1)\<rparr>
                                  in emit ConnectNodes s12)))))"

text \<open>The four socket handlers.  \<open>ws_onmessage\<close> takes the outcome of
  \<open>JSON.parse(event.data)\<close>, \<open>None\<close> when it throws; reading \<open>data.error\<close> of
  \<open>null\<close> throws as well, and the \<open>catch\<close> only logs.\<close>

definition ws_onopen :: "session \<Rightarrow> session" where
  "ws_onopen s = s\<lparr>connectionState := connected\<rparr>"

definition extract_transcript :: "json \<Rightarrow> json option" where
  "extract_transcript data =
     opt_prop (opt_index0 (opt_prop (get_prop data ''channel'') ''alternatives'')) ''transcript''"

definition ws_onmessage :: "json option \<Rightarrow> session \<Rightarrow> session" where
  "ws_onmessage parsed s =
     (case parsed of
        None \<Rightarrow> s
      | Some JNull \<Rightarrow> s
      | Some data \<Rightarrow>
          if truthy_opt (get_prop data ''error'') then s
          else (case extract_transcript data of
                  None \<Rightarrow> s
                | Some t \<Rightarrow>
                    if truthy t
                    then (if truthy_opt (get_prop data ''is_final'')
                          then s\<lparr>transcript := transcript s @ [t], interimTranscript := JStr ''''\<rparr>
                          else s\<lparr>interimTranscript := t\<rparr>)
                    else s))"

definition ws_onerror :: "session \<Rightarrow> session" where
  "ws_onerror s = s\<lparr>connectionState := error\<rparr>"

definition ws_onclose :: "session \<Rightarrow> session" where
  "ws_onclose s = s\<lparr>connectionState := idle\<rparr>"

definition stopTranscription :: "session \<Rightarrow> session" where
  "stopTranscription s0 =
     (let s1 = (case audioProcessorRef s0 of
                  Some p \<Rightarrow> (emit ProcessorDisconnect s0)\<lparr>audioProcessorRef := None\<rparr>
                | None \<Rightarrow> s0);
          s2 = (case audioContextRef s1 of
                  Some c \<Rightarrow> (emit ContextClose s1)\<lparr>audioContextRef := None\<rparr>
                | None \<Rightarrow> s1);
          s3 = (case audioStreamRef s2 of
                  Some stream \<Rightarrow>
                    (fold (\<lambda>track. emit (TrackStop track)) (getTracks stream) s2)
                      \<lparr>audioStreamRef := None\<rparr>
                | None \<Rightarrow> s2);
          s4 = (case wsRef s3 of
                  Some ws \<Rightarrow>
                    if readyState ws = OPEN then (emit WsClose s3)\<lparr>wsRef := None\<rparr> else s3
                | None \<Rightarrow> s3)
      in s4\<lparr>connectionState := idle\<rparr>)"

definition clearTranscript :: "session \<Rightarrow> session" where
  "clearTranscript s = s\<lparr>transcript := [], interimTranscript := JStr ''''\<rparr>"

section \<open>Concrete environments and sessions\<close>

text \<open>A number renderer for the examples (right on the non-negative integers; no example
  body holds a number).\<close>

definition example_nts :: "rat \<Rightarrow> string" where
  "example_nts q = dec_str (nat \<lfloor>q\<rfloor>)"

definition default_config :: config where
  "default_config = \<lparr> NEXT_PUBLIC_API_BASE_URL = None, NEXT_PUBLIC_BEARER_TOKEN = None \<rparr>"

text \<open>HTTP 401 with the JSON body \<open>{"error":"invalid token"}\<close>.\<close>

definition response_401 :: response where
  "response_401 =
     \<lparr> status = 401, statusText = ''Unauthorized'',
       content_type = Some ''application/json'',
       json_body = Inr (JObj [(''error'', JStr ''invalid token'')]),
       text_body = Inr (''{'' @ [dquote] @ ''error'' @ [dquote] @ '':'' @ [dquote]
                        @ ''invalid token'' @ [dquote] @ ''}'') \<rparr>"

definition mock_fetch_401 :: "request \<Rightarrow> js_error + response" where
  "mock_fetch_401 req = Inr response_401"

text \<open>HTTP 200 with the JSON body \<open>{}\<close>: valid JSON without any Credential field.\<close>

definition response_200_empty_object :: response where
  "response_200_empty_object =
     \<lparr> status = 200, statusText = ''OK'',
       content_type = Some ''application/json'',
       json_body = Inr (JObj []),
       text_body = Inr ''{}'' \<rparr>"

definition mock_fetch_empty_object :: "request \<Rightarrow> js_error + response" where
  "mock_fetch_empty_object req = Inr response_200_empty_object"

text \<open>HTTP 200 with the credential of the README.\<close>

definition credential_json :: json where
  "credential_json =
     JObj [(''access_token'', JStr ''ws-67844d680dfa27e4''),
           (''expires_at'', JStr ''2025-11-11T02:50:43.291Z''),
           (''key_type'', JStr ''websocket'')]"

definition response_200_credential :: response where
  "response_200_credential =
     \<lparr> status = 200, statusText = ''OK'',
       content_type = Some ''application/json'',
       json_body = Inr credential_json,
       text_body = Inr '''' \<rparr>"

definition mock_fetch_credential :: "request \<Rightarrow> js_error + response" where
  "mock_fetch_credential req = Inr response_200_credential"

text \<open>HTTP 200 with the JSON body \<open>null\<close>, and with a body whose \<open>access_token\<close> is a
  number.\<close>

definition response_200_null :: response where
  "response_200_null =
     \<lparr> status = 200, statusText = ''OK'',
       content_type = Some ''application/json'',
       json_body = Inr JNull,
       text_body = Inr ''null'' \<rparr>"

definition mock_fetch_null :: "request \<Rightarrow> js_error + response" where
  "mock_fetch_null req = Inr response_200_null"

definition response_200_numeric_token :: response where
  "response_200_numeric_token =
     \<lparr> status = 200, statusText = ''OK'',
       content_type = Some ''application/json'',
       json_body = Inr (JObj [(''access_token'', JNum 5)]),
       text_body = Inr '''' \<rparr>"

definition mock_fetch_numeric_token :: "request \<Rightarrow> js_error + response" where
  "mock_fetch_numeric_token req = Inr response_200_numeric_token"

text \<open>The component as mounted, and mocked environments for one start.\<close>

definition initial_session :: session where
  "initial_session =
     \<lparr> connectionState = idle, transcript = [], interimTranscript = JStr '''',
       service = ''deepgram'', language = ''en-US'',
       wsRef = None, wsTokenRef = None, audioStreamRef = None,
       audioContextRef = None, audioProcessorRef = None, effects = [] \<rparr>"

definition example_token :: WebSocketToken where
  "example_token =
     \<lparr> access_token = ''ws-67844d680dfa27e4'', expires_at = ''2025-11-11T02:50:43.291Z'',
       key_type = ''websocket'' \<rparr>"


text \<open>A date parser that knows the two expiry dates above.\<close>

definition example_Date_parse :: "string \<Rightarrow> int option" where
  "example_Date_parse str =
     (if str = ''2025-11-11T02:50:43.291Z'' then Some 1762829443291
      else if str = ''2025-11-11T04:50:43.291Z'' then Some 1762836643291
      else None)"

text \<open>Everything succeeds, one hour before the first token expires.\<close>

definition env_ok :: env where
  "env_ok =
     \<lparr> now = 1762825843291, Date_parse = example_Date_parse,
       fetch_token = Inr example_token, getUserMedia = Inr (MediaStream [0]),
       new_WebSocket = None, new_AudioContext = None \<rparr>"



definition env_fetch_fails :: env where
  "env_fetch_fails =
     env_ok\<lparr> fetch_token := Inl (JsError ''Error''
        ''Failed to fetch WebSocket token: 401 Unauthorized. Error: invalid token'') \<rparr>"

definition env_microphone_denied :: env where
  "env_microphone_denied =
     env_ok\<lparr> getUserMedia := Inl (JsError ''NotAllowedError'' ''Permission denied'') \<rparr>"

definition env_socket_throws :: env where
  "env_socket_throws =
     env_ok\<lparr> new_WebSocket := Some (JsError ''SecurityError'' ''The operation is insecure.'') \<rparr>"

text \<open>Inbound messages.\<close>

definition transcript_message :: "string \<Rightarrow> bool \<Rightarrow> json" where
  "transcript_message str final =
     JObj [(''channel'', JObj [(''alternatives'', JArr [JObj [(''transcript'', JStr str)]])]),
           (''is_final'', JBool final)]"

definition message_without_transcript :: json where
  "message_without_transcript =
     JObj [(''channel'', JObj [(''alternatives'', JArr [])]), (''is_final'', JBool True)]"

definition session_with_interim :: session where
  "session_with_interim = initial_session\<lparr>interimTranscript := JStr ''hi''\<rparr>"

section \<open>Properties of the token provider\<close>

subsection \<open>Substrings\<close>

lemma starts_with_iff: "starts_with needle hay \<longleftrightarrow> (\<exists>s. hay = needle @ s)"
  by (induction needle hay rule: starts_with.induct) auto

lemma str_includes_iff: "str_includes hay needle \<longleftrightarrow> (\<exists>p s. hay = p @ needle @ s)"
proof (induction hay)
  case Nil
  then show ?case by auto
next
  case (Cons h hs)
  show ?case
  proof
    assume "str_includes (h # hs) needle"
    then consider "starts_with needle (h # hs)" | "str_includes hs needle" by auto
    then show "\<exists>p s. h # hs = p @ needle @ s"
    proof cases
      case 1
      then obtain s where "h # hs = needle @ s" by (auto simp: starts_with_iff)
      then have "h # hs = [] @ needle @ s" by simp
      then show ?thesis by blast
    next
      case 2
      then obtain p s where "hs = p @ needle @ s" using Cons.IH by blast
      then have "h # hs = (h # p) @ needle @ s" by simp
      then show ?thesis by blast
    qed
  next
    assume "\<exists>p s. h # hs = p @ needle @ s"
    then obtain p s where eq: "h # hs = p @ needle @ s" by blast
    show "str_includes (h # hs) needle"
    proof (cases p)
      case Nil
      with eq have "starts_with needle (h # hs)" by (auto simp: starts_with_iff)
      then show ?thesis by simp
    next
      case (Cons a p')
      with eq have "hs = p' @ needle @ s" by simp
      then have "str_includes hs needle" using Cons.IH by blast
      then show ?thesis by simp
    qed
  qed
qed

lemma str_includes_mid: "str_includes (p @ needle @ s) needle"
  unfolding str_includes_iff by blast

lemma str_includes_trans:
  "str_includes b c \<Longrightarrow> str_includes a b \<Longrightarrow> str_includes a c"
  unfolding str_includes_iff
  by (metis append.assoc)

subsection \<open>The thrown message\<close>

lemma failed_message_status: "str_includes (failed_message nts r) (dec_str (status r))"
  unfolding failed_message_def by (rule str_includes_mid)

lemma failed_message_body:
  "str_includes (failed_message nts r) (errorData_text nts (read_errorData r))"
proof -
  have "failed_message nts r =
      (''Failed to fetch WebSocket token: '' @ dec_str (status r) @ '' '' @ statusText r @ ''. ''
       @ ''Error: '') @ errorData_text nts (read_errorData r) @ []"
    by (simp add: failed_message_def)
  then show ?thesis by (metis str_includes_mid)
qed

lemma failed_message_keeps_prefix:
  "str_includes (failed_message nts r) ''Failed to fetch WebSocket token''"
proof -
  have "failed_message nts r = [] @ ''Failed to fetch WebSocket token'' @
      ('': '' @ dec_str (status r) @ '' '' @ statusText r @ ''. ''
       @ ''Error: '' @ errorData_text nts (read_errorData r))"
    by (simp add: failed_message_def)
  then show ?thesis by (metis str_includes_mid)
qed

lemma catch_block_failed:
  "catch_block u (JsError ''Error'' (failed_message nts r)) = JsError ''Error'' (failed_message nts r)"
  by (simp add: catch_block_def failed_message_keeps_prefix)

lemma fetch_not_ok:
  assumes "fetch (grant_request nts cfg authToken) = Inr r" "\<not> response_ok r"
  shows "fetchWebSocketToken nts cfg fetch authToken = Inl (JsError ''Error'' (failed_message nts r))"
  using assms by (simp add: fetchWebSocketToken_def try_block_def catch_block_failed)

lemma fetch_ok:
  assumes "fetch (grant_request nts cfg authToken) = Inr r" "response_ok r"
  shows "fetchWebSocketToken nts cfg fetch authToken =
     (case json_body r of
        Inl e \<Rightarrow> Inl (catch_block (grant_url cfg) e)
      | Inr data \<Rightarrow> (case log_token data of
                      Some e \<Rightarrow> Inl (catch_block (grant_url cfg) e)
                    | None \<Rightarrow> Inr data))"
  using assms by (simp add: fetchWebSocketToken_def try_block_def split: sum.splits option.splits)

lemma fetch_rejects:
  assumes "fetch (grant_request nts cfg authToken) = Inl e"
  shows "fetchWebSocketToken nts cfg fetch authToken = Inl (catch_block (grant_url cfg) e)"
  using assms by (simp add: fetchWebSocketToken_def try_block_def)

lemma bearer_empty: "bearer_of cfg (Some []) = bearer_of cfg None"
  by (simp add: bearer_of_def or_default_def)

lemma dec_str_401: "dec_str 401 = ''401''"
  by code_simp

lemma stringify_invalid_token:
  "str_includes (errorData_text nts (JObj [(''error'', JStr ''invalid token'')])) ''invalid token''"
  by (simp add: errorData_text_def quote_json_string_def escape_char_def dquote_def bslash_def)

lemma log_token_throws:
  "log_token data \<noteq> None \<longleftrightarrow>
     data = JNull
     \<or> (\<exists>v. get_prop data ''access_token'' = Some v \<and> v \<noteq> JNull \<and> (\<forall>str. v \<noteq> JStr str))"
  by (cases data) (auto simp: log_token_def split: option.splits json.splits)

lemma catch_block_throws: "isl (Inl (catch_block u e) :: js_error + json)"
  by simp

lemma fetch_ok_fails_iff:
  assumes "fetch (grant_request nts cfg authToken) = Inr r" "response_ok r"
    "json_body r = Inr data"
  shows "isl (fetchWebSocketToken nts cfg fetch authToken) \<longleftrightarrow>
     data = JNull
     \<or> (\<exists>v. get_prop data ''access_token'' = Some v \<and> v \<noteq> JNull \<and> (\<forall>str. v \<noteq> JStr str))"
proof -
  have "isl (fetchWebSocketToken nts cfg fetch authToken) \<longleftrightarrow> log_token data \<noteq> None"
    using assms by (auto simp: fetch_ok split: option.splits)
  then show ?thesis by (simp only: log_token_throws)
qed

lemma fetch_ok_returns:
  assumes "fetch (grant_request nts cfg authToken) = Inr r" "response_ok r"
    "json_body r = Inr data" "data \<noteq> JNull"
    "get_prop data ''access_token'' = None \<or> get_prop data ''access_token'' = Some JNull
      \<or> (\<exists>str. get_prop data ''access_token'' = Some (JStr str))"
  shows "fetchWebSocketToken nts cfg fetch authToken = Inr data"
proof -
  have "log_token data = None"
    using assms(4,5) by (cases data) (auto simp: log_token_def)
  then show ?thesis using assms(1-3) by (simp add: fetch_ok)
qed

lemma failed_message_json:
  assumes "content_type r = Some ct" "ct \<noteq> []" "str_includes ct ''application/json''"
    "json_body r = Inr j"
  shows "failed_message nts r =
     ''Failed to fetch WebSocket token: '' @ dec_str (status r) @ '' '' @ statusText r
     @ ''. Error: '' @ (case j of JStr str \<Rightarrow> str | _ \<Rightarrow> JSON_stringify nts j)"
  using assms by (simp add: failed_message_def read_errorData_def errorData_text_def)

lemma failed_message_json_unreadable:
  assumes "content_type r = Some ct" "ct \<noteq> []" "str_includes ct ''application/json''"
    "json_body r = Inl e"
  shows "failed_message nts r =
     ''Failed to fetch WebSocket token: '' @ dec_str (status r) @ '' '' @ statusText r
     @ ''. Error: Could not parse error response''"
  using assms by (simp add: failed_message_def read_errorData_def errorData_text_def)

lemma failed_message_text:
  assumes "content_type r = None \<or> content_type r = Some []
      \<or> (\<exists>ct. content_type r = Some ct \<and> \<not> str_includes ct ''application/json'')"
    "text_body r = Inr t"
  shows "failed_message nts r =
     ''Failed to fetch WebSocket token: '' @ dec_str (status r) @ '' '' @ statusText r
     @ ''. Error: '' @ t"
  using assms by (auto simp: failed_message_def read_errorData_def errorData_text_def)

lemma failed_message_text_unreadable:
  assumes "content_type r = None \<or> content_type r = Some []
      \<or> (\<exists>ct. content_type r = Some ct \<and> \<not> str_includes ct ''application/json'')"
    "text_body r = Inl e"
  shows "failed_message nts r =
     ''Failed to fetch WebSocket token: '' @ dec_str (status r) @ '' '' @ statusText r
     @ ''. Error: Could not parse error response''"
  using assms by (auto simp: failed_message_def read_errorData_def errorData_text_def)

text \<open>
  Claim C2, as the code has it.  When the endpoint answers (\<open>fetch\<close> resolves with the
  response \<open>r\<close>):
  on a status outside 200 to 299 the call throws an \<open>Error\<close> whose message is
  \<open>Failed to fetch WebSocket token: <status> <statusText>. Error: <body>\<close>, where the
  body is the parsed JSON body stringified (a JSON string as it is) when the content type
  mentions \<open>application/json\<close>, the raw text otherwise, and
  \<open>Could not parse error response\<close> when the body cannot be read;
  on a status from 200 to 299 it throws when \<open>response.json()\<close> rejects, and for a parsed
  body it throws exactly when the body is \<open>null\<close> or its \<open>access_token\<close> is present,
  not \<open>null\<close> and not a string; every other parsed body is returned as it is, whatever
  fields it has;
  for HTTP 401 with error body \<open>{"error":"invalid token"}\<close> the message contains
  \<open>401\<close> and \<open>invalid token\<close>.
\<close>

theorem token_fetch_failure:
  assumes "fetch (grant_request nts cfg authToken) = Inr r"
  shows
    "(\<not> (200 \<le> status r \<and> status r \<le> 299) \<longrightarrow>
        isl (fetchWebSocketToken nts cfg fetch authToken)
      \<and> err_name (projl (fetchWebSocketToken nts cfg fetch authToken)) = ''Error''
      \<and> str_includes (err_message (projl (fetchWebSocketToken nts cfg fetch authToken)))
           (dec_str (status r))
      \<and> (\<forall>ct j. content_type r = Some ct \<and> ct \<noteq> [] \<and> str_includes ct ''application/json''
            \<and> json_body r = Inr j \<longrightarrow>
            err_message (projl (fetchWebSocketToken nts cfg fetch authToken))
              = ''Failed to fetch WebSocket token: '' @ dec_str (status r) @ '' ''
                @ statusText r @ ''. Error: ''
                @ (case j of JStr str \<Rightarrow> str | _ \<Rightarrow> JSON_stringify nts j))
      \<and> (\<forall>ct e. content_type r = Some ct \<and> ct \<noteq> [] \<and> str_includes ct ''application/json''
            \<and> json_body r = Inl e \<longrightarrow>
            err_message (projl (fetchWebSocketToken nts cfg fetch authToken))
              = ''Failed to fetch WebSocket token: '' @ dec_str (status r) @ '' ''
                @ statusText r @ ''. Error: Could not parse error response'')
      \<and> (\<forall>t. (content_type r = None \<or> content_type r = Some []
              \<or> (\<exists>ct. content_type r = Some ct \<and> \<not> str_includes ct ''application/json''))
            \<and> text_body r = Inr t \<longrightarrow>
            err_message (projl (fetchWebSocketToken nts cfg fetch authToken))
              = ''Failed to fetch WebSocket token: '' @ dec_str (status r) @ '' ''
                @ statusText r @ ''. Error: '' @ t)
      \<and> (\<forall>e. (content_type r = None \<or> content_type r = Some []
              \<or> (\<exists>ct. content_type r = Some ct \<and> \<not> str_includes ct ''application/json''))
            \<and> text_body r = Inl e \<longrightarrow>
            err_message (projl (fetchWebSocketToken nts cfg fetch authToken))
              = ''Failed to fetch WebSocket token: '' @ dec_str (status r) @ '' ''
                @ statusText r @ ''. Error: Could not parse error response''))
     \<and> (200 \<le> status r \<and> status r \<le> 299 \<longrightarrow>
          (\<forall>e. json_body r = Inl e \<longrightarrow> isl (fetchWebSocketToken nts cfg fetch authToken))
        \<and> (\<forall>data. json_body r = Inr data \<longrightarrow>
              (isl (fetchWebSocketToken nts cfg fetch authToken) \<longleftrightarrow>
                 data = JNull
                 \<or> (\<exists>v. get_prop data ''access_token'' = Some v \<and> v \<noteq> JNull
                        \<and> (\<forall>str. v \<noteq> JStr str)))
            \<and> (data \<noteq> JNull
                \<and> (get_prop data ''access_token'' = None
                    \<or> get_prop data ''access_token'' = Some JNull
                    \<or> (\<exists>str. get_prop data ''access_token'' = Some (JStr str))) \<longrightarrow>
                fetchWebSocketToken nts cfg fetch authToken = Inr data)))
     \<and> (status r = 401 \<and> content_type r = Some ''application/json''
          \<and> json_body r = Inr (JObj [(''error'', JStr ''invalid token'')]) \<longrightarrow>
          str_includes (err_message (projl (fetchWebSocketToken nts cfg fetch authToken))) ''401''
        \<and> str_includes (err_message (projl (fetchWebSocketToken nts cfg fetch authToken)))
             ''invalid token'')"
proof -
  let ?res = "fetchWebSocketToken nts cfg fetch authToken"
  have bad: "?res = Inl (JsError ''Error'' (failed_message nts r))"
    if "\<not> (200 \<le> status r \<and> status r \<le> 299)"
    using that assms by (simp add: fetch_not_ok response_ok_def)
  have part1: "isl ?res \<and> err_name (projl ?res) = ''Error''
      \<and> str_includes (err_message (projl ?res)) (dec_str (status r))"
    if "\<not> (200 \<le> status r \<and> status r \<le> 299)"
    using bad[OF that] failed_message_status[of nts r] by simp
  have msg: "err_message (projl ?res) = failed_message nts r"
    if "\<not> (200 \<le> status r \<and> status r \<le> 299)"
    using bad[OF that] by simp
  have good_rejects: "isl ?res"
    if "200 \<le> status r \<and> status r \<le> 299" "json_body r = Inl e" for e
    using that assms by (simp add: fetch_ok response_ok_def)
  have good_iff: "isl ?res \<longleftrightarrow>
       data = JNull
       \<or> (\<exists>v. get_prop data ''access_token'' = Some v \<and> v \<noteq> JNull \<and> (\<forall>str. v \<noteq> JStr str))"
    if "200 \<le> status r \<and> status r \<le> 299" "json_body r = Inr data" for data
    using that assms by (intro fetch_ok_fails_iff) (simp_all add: response_ok_def)
  have good_returns: "?res = Inr data"
    if "200 \<le> status r \<and> status r \<le> 299" "json_body r = Inr data" "data \<noteq> JNull"
      "get_prop data ''access_token'' = None \<or> get_prop data ''access_token'' = Some JNull
        \<or> (\<exists>str. get_prop data ''access_token'' = Some (JStr str))" for data
    using that assms by (intro fetch_ok_returns) (simp_all add: response_ok_def)
  have example: "str_includes (err_message (projl ?res)) ''401''
      \<and> str_includes (err_message (projl ?res)) ''invalid token''"
    if h: "status r = 401 \<and> content_type r = Some ''application/json''
          \<and> json_body r = Inr (JObj [(''error'', JStr ''invalid token'')])"
  proof -
    have no: "\<not> (200 \<le> status r \<and> status r \<le> 299)" using h by simp
    have data: "read_errorData r = JObj [(''error'', JStr ''invalid token'')]"
      using h by (simp add: read_errorData_def)
    have "str_includes (failed_message nts r)
            (errorData_text nts (JObj [(''error'', JStr ''invalid token'')]))"
      using failed_message_body[of nts r] data by simp
    then have "str_includes (failed_message nts r) ''invalid token''"
      by (rule str_includes_trans[OF stringify_invalid_token])
    moreover have "str_includes (failed_message nts r) ''401''"
      using failed_message_status[of nts r] h by (simp add: dec_str_401)
    ultimately show ?thesis by (simp add: msg[OF no])
  qed
  show ?thesis
  proof (intro conjI impI allI)
    assume no: "\<not> (200 \<le> status r \<and> status r \<le> 299)"
    show "isl ?res" "err_name (projl ?res) = ''Error''"
      "str_includes (err_message (projl ?res)) (dec_str (status r))"
      using part1[OF no] by simp_all
    {
      fix ct j
      assume "content_type r = Some ct \<and> ct \<noteq> [] \<and> str_includes ct ''application/json''
            \<and> json_body r = Inr j"
      then show "err_message (projl ?res)
              = ''Failed to fetch WebSocket token: '' @ dec_str (status r) @ '' ''
                @ statusText r @ ''. Error: ''
                @ (case j of JStr str \<Rightarrow> str | _ \<Rightarrow> JSON_stringify nts j)"
        using failed_message_json[of r ct j nts] by (simp add: msg[OF no])
    }
    {
      fix ct e
      assume "content_type r = Some ct \<and> ct \<noteq> [] \<and> str_includes ct ''application/json''
            \<and> json_body r = Inl e"
      then show "err_message (projl ?res)
              = ''Failed to fetch WebSocket token: '' @ dec_str (status r) @ '' ''
                @ statusText r @ ''. Error: Could not parse error response''"
        using failed_message_json_unreadable[of r ct e nts] by (simp add: msg[OF no])
    }
    {
      fix t
      assume "(content_type r = None \<or> content_type r = Some []
              \<or> (\<exists>ct. content_type r = Some ct \<and> \<not> str_includes ct ''application/json''))
            \<and> text_body r = Inr t"
      then show "err_message (projl ?res)
              = ''Failed to fetch WebSocket token: '' @ dec_str (status r) @ '' ''
                @ statusText r @ ''. Error: '' @ t"
        using failed_message_text[of r t nts] by (simp add: msg[OF no])
    }
    {
      fix e
      assume "(content_type r = None \<or> content_type r = Some []
              \<or> (\<exists>ct. content_type r = Some ct \<and> \<not> str_includes ct ''application/json''))
            \<and> text_body r = Inl e"
      then show "err_message (projl ?res)
              = ''Failed to fetch WebSocket token: '' @ dec_str (status r) @ '' ''
                @ statusText r @ ''. Error: Could not parse error response''"
        using failed_message_text_unreadable[of r e nts] by (simp add: msg[OF no])
    }
  next
    fix e
    assume "200 \<le> status r \<and> status r \<le> 299" "json_body r = Inl e"
    then show "isl ?res" by (rule good_rejects)
  next
    fix data
    assume "200 \<le> status r \<and> status r \<le> 299" "json_body r = Inr data"
    then show "isl ?res \<longleftrightarrow>
       data = JNull
       \<or> (\<exists>v. get_prop data ''access_token'' = Some v \<and> v \<noteq> JNull \<and> (\<forall>str. v \<noteq> JStr str))"
      by (rule good_iff)
  next
    fix data
    assume "200 \<le> status r \<and> status r \<le> 299" "json_body r = Inr data"
      "data \<noteq> JNull
        \<and> (get_prop data ''access_token'' = None
            \<or> get_prop data ''access_token'' = Some JNull
            \<or> (\<exists>str. get_prop data ''access_token'' = Some (JStr str)))"
    then show "?res = Inr data" using good_returns[of data] by blast
  next
    assume "status r = 401 \<and> content_type r = Some ''application/json''
          \<and> json_body r = Inr (JObj [(''error'', JStr ''invalid token'')])"
    then show "str_includes (err_message (projl ?res)) ''401''"
      "str_includes (err_message (projl ?res)) ''invalid token''"
      using example by simp_all
  qed
qed

text \<open>The theorem at the mocked 401 response, at a 200 response carrying a credential,
  and at two 200 responses the success log chokes on: the body \<open>null\<close> and a numeric
  \<open>access_token\<close>.\<close>

theorem token_fetch_failure_witness:
  "str_includes (err_message (projl (fetchWebSocketToken example_nts default_config mock_fetch_401 None))) ''401''
   \<and> str_includes (err_message (projl (fetchWebSocketToken example_nts default_config mock_fetch_401 None)))
        ''invalid token''
   \<and> fetchWebSocketToken example_nts default_config mock_fetch_credential None = Inr credential_json
   \<and> isl (fetchWebSocketToken example_nts default_config mock_fetch_null None)
   \<and> isl (fetchWebSocketToken example_nts default_config mock_fetch_numeric_token None)"
proof -
  have a: "mock_fetch_401 (grant_request example_nts default_config None) = Inr response_401"
    by (simp add: mock_fetch_401_def)
  have b: "status response_401 = 401" "content_type response_401 = Some ''application/json''"
    "json_body response_401 = Inr (JObj [(''error'', JStr ''invalid token'')])"
    by (simp_all add: response_401_def)
  have c: "mock_fetch_credential (grant_request example_nts default_config None)
             = Inr response_200_credential"
    by (simp add: mock_fetch_credential_def)
  have d: "200 \<le> status response_200_credential \<and> status response_200_credential \<le> 299"
    "json_body response_200_credential = Inr credential_json"
    "credential_json \<noteq> JNull"
    "get_prop credential_json ''access_token'' = Some (JStr ''ws-67844d680dfa27e4'')"
    by (simp_all add: response_200_credential_def credential_json_def)
  have e: "mock_fetch_null (grant_request example_nts default_config None) = Inr response_200_null"
    by (simp add: mock_fetch_null_def)
  have f: "200 \<le> status response_200_null \<and> status response_200_null \<le> 299"
    "json_body response_200_null = Inr JNull"
    by (simp_all add: response_200_null_def)
  have g: "mock_fetch_numeric_token (grant_request example_nts default_config None)
      = Inr response_200_numeric_token"
    by (simp add: mock_fetch_numeric_token_def)
  have h: "200 \<le> status response_200_numeric_token
      \<and> status response_200_numeric_token \<le> 299"
    "json_body response_200_numeric_token = Inr (JObj [(''access_token'', JNum 5)])"
    "get_prop (JObj [(''access_token'', JNum 5)]) ''access_token'' = Some (JNum 5)"
    "JNum 5 \<noteq> JNull" "\<forall>str. JNum 5 \<noteq> JStr str"
    by (simp_all add: response_200_numeric_token_def)
  have 1: "str_includes (err_message (projl
        (fetchWebSocketToken example_nts default_config mock_fetch_401 None))) ''401''
     \<and> str_includes (err_message (projl
        (fetchWebSocketToken example_nts default_config mock_fetch_401 None))) ''invalid token''"
    using token_fetch_failure[where fetch = mock_fetch_401 and r = response_401, OF a] b
    by blast
  have 2: "fetchWebSocketToken example_nts default_config mock_fetch_credential None
      = Inr credential_json"
    using token_fetch_failure[where fetch = mock_fetch_credential
        and r = response_200_credential, OF c] d
    by blast
  have 3: "isl (fetchWebSocketToken example_nts default_config mock_fetch_null None)"
    using token_fetch_failure[where fetch = mock_fetch_null and r = response_200_null, OF e] f
    by blast
  have 4: "isl (fetchWebSocketToken example_nts default_config mock_fetch_numeric_token None)"
    using token_fetch_failure[where fetch = mock_fetch_numeric_token
        and r = response_200_numeric_token, OF g] h
    by blast
  from 1 2 3 4 show ?thesis by blast
qed

text \<open>
  Claim C2 as stated fails: it has the fetch fail whenever the body cannot be parsed as the
  Credential shape.  A 200 response with body \<open>{}\<close> has none of the three fields, and
  the call returns it.
\<close>

theorem token_fetch_shape_counterexample:
  "response_ok response_200_empty_object
   \<and> json_body response_200_empty_object = Inr (JObj [])
   \<and> \<not> credential_shape (JObj [])
   \<and> fetchWebSocketToken example_nts default_config mock_fetch_empty_object None = Inr (JObj [])"
  by (simp add: response_ok_def response_200_empty_object_def credential_shape_def
      is_string_prop_def fetchWebSocketToken_def try_block_def mock_fetch_empty_object_def
      log_token_def)

text \<open>
  Claim C10: the empty string as \<open>authToken\<close> selects the configured default bearer
  token, builds the same request and gives the same outcome as no argument.
\<close>

theorem empty_authToken_is_default:
  "bearer_of cfg (Some '''') = BEARER_TOKEN cfg
   \<and> grant_request nts cfg (Some '''') = grant_request nts cfg None
   \<and> fetchWebSocketToken nts cfg fetch (Some '''') = fetchWebSocketToken nts cfg fetch None"
  by (simp add: fetchWebSocketToken_def grant_request_def bearer_of_def or_default_def)

section \<open>Properties of the PCM conversion\<close>


lemma js_truncate_eq: "js_truncate x = round_toward_zero x"
  by (auto simp: js_truncate_def round_toward_zero_def ceiling_def)

lemma clamp_eq: "max (- 1) (min 1 q) = clamp q (- 1) (1::rat)"
  by (auto simp: clamp_def)

lemma pcm_sample_Fin: "pcm_sample (Fin q) = word_of_int (spec_sample_i16 q)"
  by (simp add: pcm_sample_def spec_sample_i16_def js_truncate_eq clamp_eq)

lemma clamp_bounds: "- 1 \<le> clamp q (- 1) 1 \<and> clamp q (- 1) 1 \<le> 1"
  by (auto simp: clamp_def)

lemma spec_sample_range: "- 32767 \<le> spec_sample_i16 q \<and> spec_sample_i16 q \<le> 32767"
proof -
  let ?c = "clamp q (- 1) 1"
  have lo: "- 32767 \<le> ?c * 32767" and hi: "?c * 32767 \<le> 32767"
    using clamp_bounds[of q] by auto
  show ?thesis
  proof (cases "0 \<le> ?c * 32767")
    case True
    then have "spec_sample_i16 q = \<lfloor>?c * 32767\<rfloor>"
      by (simp add: spec_sample_i16_def round_toward_zero_def)
    moreover have "0 \<le> \<lfloor>?c * 32767\<rfloor>" using True by simp
    moreover have "\<lfloor>?c * 32767\<rfloor> \<le> 32767" using hi by (simp add: floor_le_iff) 
    ultimately show ?thesis by simp
  next
    case False
    then have "spec_sample_i16 q = \<lceil>?c * 32767\<rceil>"
      by (simp add: spec_sample_i16_def round_toward_zero_def)
    moreover have "\<lceil>?c * 32767\<rceil> \<le> 0" using False by (simp add: ceiling_le_iff)
    moreover have "- 32767 \<le> \<lceil>?c * 32767\<rceil>" using lo by (simp add: le_ceiling_iff)
    ultimately show ?thesis by simp
  qed
qed

lemma sint_small: "- 32768 \<le> v \<Longrightarrow> v < 32768 \<Longrightarrow> sint (word_of_int v :: 16 word) = v"
  by (simp add: int_word_sint) 

lemma sint_pcm_sample: "sint (pcm_sample (Fin q)) = spec_sample_i16 q"
  using spec_sample_range[of q] by (simp add: pcm_sample_Fin sint_small)

lemma pcm_loop_inv:
  "length pcmData = length inputData \<Longrightarrow> i \<le> length inputData \<Longrightarrow>
   pcm_loop inputData i pcmData = take i pcmData @ map pcm_sample (drop i inputData)"
proof (induction inputData i pcmData rule: pcm_loop.induct)
  case (1 inputData i pcmData)
  show ?case
  proof (cases "i < length inputData")
    case True
    let ?p = "pcmData[i := pcm_sample (inputData ! i)]"
    have "pcm_loop inputData i pcmData = pcm_loop inputData (Suc i) ?p"
      using True by (subst pcm_loop.simps) simp
    also have "\<dots> = take (Suc i) ?p @ map pcm_sample (drop (Suc i) inputData)"
      using 1 True by simp
    also have "take (Suc i) ?p = take i pcmData @ [pcm_sample (inputData ! i)]"
      using True 1(2) by (simp add: take_Suc_conv_app_nth)
    also have "(take i pcmData @ [pcm_sample (inputData ! i)]) @ map pcm_sample (drop (Suc i) inputData)
        = take i pcmData @ map pcm_sample (drop i inputData)"
      using True by (simp add: Cons_nth_drop_Suc[symmetric])
    finally show ?thesis .
  next
    case False
    then show ?thesis using 1(2,3) by (subst pcm_loop.simps) simp
  qed
qed

lemma convert_frame_map: "convert_frame inputData = map pcm_sample inputData"
  by (simp add: convert_frame_def pcm_loop_inv)

lemma buffer_nth:
  "i < length ws \<Longrightarrow>
     buffer_of ws ! (2 * i) = ucast (ws ! i) \<and> buffer_of ws ! (2 * i + 1) = ucast (drop_bit 8 (ws ! i))"
proof (induction ws arbitrary: i)
  case Nil
  then show ?case by simp
next
  case (Cons w ws)
  show ?case
  proof (cases i)
    case 0
    then show ?thesis by (simp add: buffer_of_def)
  next
    case (Suc j)
    then have "j < length ws" using Cons.prems by simp
    from Cons.IH[OF this] show ?thesis using Suc by (simp add: buffer_of_def)
  qed
qed

lemma buffer_length: "length (buffer_of ws) = 2 * length ws"
  by (induction ws) (simp_all add: buffer_of_def)

lemma low_byte: "unat (ucast (w :: 16 word) :: 8 word) = unat w mod 256"
  by (simp add: unsigned_ucast_eq take_bit_eq_mod)
lemma high_byte: "unat (ucast (drop_bit 8 (w::16 word)) :: 8 word) = unat w div 256"
proof -
  have "unat w < 65536" using unsigned_less[of w, where ?'a = nat] by simp
  then have small: "unat w div 256 < 256" by simp
  have "unat (drop_bit 8 w) = unat w div 256"
    by (simp add: drop_bit_eq_div unat_div_distrib)
  then have "unat (ucast (drop_bit 8 w) :: 8 word) = (unat w div 256) mod 256"
    unfolding unsigned_ucast_eq take_bit_eq_mod by simp
  with small show ?thesis by simp
qed
lemma little_endian:
  "unat (ucast w :: 8 word) + 256 * unat (ucast (drop_bit 8 w) :: 8 word) = unat (w :: 16 word)"
  by (simp only: high_byte) (simp add: low_byte)

lemma pcm_sample_special:
  "pcm_sample (Fin 1) = 32767" "sint (pcm_sample (Fin (- 1))) = - 32767" "pcm_sample (Fin 0) = 0"
  "pcm_sample PInf = 32767" "sint (pcm_sample NInf) = - 32767" "pcm_sample NaN = 0"
  by (simp_all add: pcm_sample_def js_truncate_def)

text \<open>
  Claim C1.  A finite sample \<open>q\<close> is stored as
  \<open>round_toward_zero(clamp(q, -1, 1) * 32767)\<close>, read as a signed 16-bit value; so 1.0
  gives 32767, -1.0 gives -32767 and 0.0 gives 0.  The infinities clamp to the same ends,
  and not-a-number, on which the formula is silent, is stored as 0.  A frame is converted
  sample by sample in capture order, the buffer has two bytes per sample (8192 for 4096
  samples), and sample \<open>i\<close> lies at bytes \<open>2 i\<close> (low) and \<open>2 i + 1\<close> (high).  The
  buffer is what the callback sends while the socket is open.
\<close>

theorem pcm_conversion:
  fixes q :: rat and inputData :: "jsnum list" and i :: nat
  shows "sint (pcm_sample (Fin q)) = spec_sample_i16 q
    \<and> sint (pcm_sample (Fin 1)) = 32767
    \<and> sint (pcm_sample (Fin (- 1))) = - 32767
    \<and> sint (pcm_sample (Fin 0)) = 0
    \<and> sint (pcm_sample PInf) = 32767
    \<and> sint (pcm_sample NInf) = - 32767
    \<and> sint (pcm_sample NaN) = 0
    \<and> convert_frame inputData = map pcm_sample inputData
    \<and> length (buffer_of (convert_frame inputData)) = 2 * length inputData
    \<and> (length inputData = 4096 \<longrightarrow> length (buffer_of (convert_frame inputData)) = 8192)
    \<and> (i < length inputData \<longrightarrow>
          buffer_of (convert_frame inputData) ! (2 * i) = ucast (pcm_sample (inputData ! i))
        \<and> buffer_of (convert_frame inputData) ! (2 * i + 1)
            = ucast (drop_bit 8 (pcm_sample (inputData ! i)))
        \<and> unat (buffer_of (convert_frame inputData) ! (2 * i))
            + 256 * unat (buffer_of (convert_frame inputData) ! (2 * i + 1))
            = unat (pcm_sample (inputData ! i)))
    \<and> onaudioprocess OPEN inputData = Some (buffer_of (map pcm_sample inputData))"
proof -
  have bytes: "buffer_of (convert_frame inputData) ! (2 * i) = ucast (pcm_sample (inputData ! i))
      \<and> buffer_of (convert_frame inputData) ! (2 * i + 1)
            = ucast (drop_bit 8 (pcm_sample (inputData ! i)))"
    if "i < length inputData"
    using that buffer_nth[of i "map pcm_sample inputData"] by (simp add: convert_frame_map)
  have len: "length (buffer_of (convert_frame inputData)) = 2 * length inputData"
    by (simp add: buffer_length convert_frame_map)
  have special: "sint (pcm_sample (Fin 1)) = 32767" "sint (pcm_sample (Fin 0)) = 0"
    "sint (pcm_sample PInf) = 32767" "sint (pcm_sample NaN) = 0"
    by (simp_all add: pcm_sample_special)
  show ?thesis
    using bytes len special sint_pcm_sample[of q] little_endian[of "pcm_sample (inputData ! i)"]
    by (simp add: pcm_sample_special convert_frame_map onaudioprocess_def)
qed

text \<open>The theorem on the frame \<open>[1.0, -1.0, 0.0]\<close> at sample 1, and on a silent frame of
  4096 samples.\<close>

theorem pcm_conversion_witness:
  "onaudioprocess OPEN [Fin 1, Fin (- 1), Fin 0] = Some [255, 127, 1, 128, 0, 0]
   \<and> buffer_of (convert_frame [Fin 1, Fin (- 1), Fin 0]) ! 3 = 128
   \<and> length (buffer_of (convert_frame (replicate 4096 (Fin 0)))) = 8192"
proof -
  have a: "(1::nat) < length [Fin 1, Fin (- 1), Fin 0]" by simp
  have b: "length (replicate 4096 (Fin 0)) = 4096" by simp
  have c: "ucast (drop_bit 8 (pcm_sample (Fin (- 1)))) = (128 :: 8 word)"
    by (simp add: pcm_sample_def js_truncate_def)
  have d: "buffer_of (map pcm_sample [Fin 1, Fin (- 1), Fin 0]) = [255, 127, 1, 128, 0, 0]"
    by (simp add: buffer_of_def pcm_sample_def js_truncate_def)
  from pcm_conversion[of 0 "[Fin 1, Fin (- 1), Fin 0]" 1] a c d
  have "onaudioprocess OPEN [Fin 1, Fin (- 1), Fin 0] = Some [255, 127, 1, 128, 0, 0]
   \<and> buffer_of (convert_frame [Fin 1, Fin (- 1), Fin 0]) ! 3 = 128"
    by simp
  moreover from pcm_conversion[of 0 "replicate 4096 (Fin 0)" 0] b
  have "length (buffer_of (convert_frame (replicate 4096 (Fin 0)))) = 8192"
    by blast
  ultimately show ?thesis by blast
qed

section \<open>Properties of the session controller\<close>

subsection \<open>Starting\<close>

lemma step1_fails_fetching: "step1_token env s = Inl e \<Longrightarrow> fetching env s \<and> fetch_token env = Inl e"
  by (auto simp: step1_token_def fetching_def split: option.splits if_splits)

lemma step1_connecting [simp]:
  "step1_token env (s\<lparr>connectionState := c\<rparr>) = step1_token env s"
  "fetching env (s\<lparr>connectionState := c\<rparr>) = fetching env s"
  by (simp_all add: step1_token_def fetching_def)

lemma start_all_succeed:
  assumes "step1_token env s = Inr tok" "getUserMedia env = Inr stream"
    "new_WebSocket env = None" "new_AudioContext env = None"
  shows "initializeTranscription env s =
     s\<lparr> connectionState := connecting,
        wsTokenRef := (if fetching env s then Some tok else wsTokenRef s),
        audioStreamRef := Some stream,
        wsRef := Some \<lparr>url = wsUrl_of tok (language s) (service s), readyState = CONNECTING\<rparr>,
        audioContextRef := Some (AudioContext 16000),
        audioProcessorRef := Some (ScriptProcessorNode 4096 1 1),
        effects := effects s @ (if fetching env s then [FetchToken] else [])
          @ [GetUserMedia 1 16000, NewWebSocket (wsUrl_of tok (language s) (service s)),
             NewAudioContext 16000, CreateMediaStreamSource, CreateScriptProcessor 4096 1 1,
             ConnectNodes] \<rparr>"
  using assms by (simp add: initializeTranscription_def Let_def emit_def)

lemma start_fetch_fails:
  assumes "step1_token env s = Inl e"
  shows "initializeTranscription env s =
     s\<lparr> connectionState := error,
        effects := effects s
          @ [FetchToken, Alert (''Failed to initialize transcription: '' @ err_message e)] \<rparr>"
  using assms step1_fails_fetching[OF assms]
  by (simp add: initializeTranscription_def Let_def emit_def init_failed_def)

lemma start_microphone_fails:
  assumes "step1_token env s = Inr tok" "getUserMedia env = Inl e"
  shows "initializeTranscription env s =
     s\<lparr> connectionState := error,
        wsTokenRef := (if fetching env s then Some tok else wsTokenRef s),
        effects := effects s @ (if fetching env s then [FetchToken] else [])
          @ [GetUserMedia 1 16000,
             Alert (''Failed to initialize transcription: '' @ err_message e)] \<rparr>"
  using assms by (simp add: initializeTranscription_def Let_def emit_def init_failed_def)

lemma start_socket_throws:
  assumes "step1_token env s = Inr tok" "getUserMedia env = Inr stream"
    "new_WebSocket env = Some e"
  shows "initializeTranscription env s =
     s\<lparr> connectionState := error,
        wsTokenRef := (if fetching env s then Some tok else wsTokenRef s),
        audioStreamRef := Some stream,
        effects := effects s @ (if fetching env s then [FetchToken] else [])
          @ [GetUserMedia 1 16000, NewWebSocket (wsUrl_of tok (language s) (service s)),
             Alert (''Failed to initialize transcription: '' @ err_message e)] \<rparr>"
  using assms by (simp add: initializeTranscription_def Let_def emit_def init_failed_def)

lemma start_audio_context_throws:
  assumes "step1_token env s = Inr tok" "getUserMedia env = Inr stream"
    "new_WebSocket env = None" "new_AudioContext env = Some e"
  shows "initializeTranscription env s =
     s\<lparr> connectionState := error,
        wsTokenRef := (if fetching env s then Some tok else wsTokenRef s),
        audioStreamRef := Some stream,
        wsRef := Some \<lparr>url = wsUrl_of tok (language s) (service s), readyState = CONNECTING\<rparr>,
        effects := effects s @ (if fetching env s then [FetchToken] else [])
          @ [GetUserMedia 1 16000, NewWebSocket (wsUrl_of tok (language s) (service s)),
             NewAudioContext 16000,
             Alert (''Failed to initialize transcription: '' @ err_message e)] \<rparr>"
  using assms by (simp add: initializeTranscription_def Let_def emit_def init_failed_def)

lemma connecting_session:
  "initializeTranscription env_ok initial_session =
     initial_session\<lparr> connectionState := connecting,
        wsTokenRef := Some example_token,
        audioStreamRef := Some (MediaStream [0]),
        wsRef := Some \<lparr>url = wsUrl_of example_token ''en-US'' ''deepgram'',
                        readyState = CONNECTING\<rparr>,
        audioContextRef := Some (AudioContext 16000),
        audioProcessorRef := Some (ScriptProcessorNode 4096 1 1),
        effects := [FetchToken, GetUserMedia 1 16000,
             NewWebSocket (wsUrl_of example_token ''en-US'' ''deepgram''),
             NewAudioContext 16000, CreateMediaStreamSource, CreateScriptProcessor 4096 1 1,
             ConnectNodes] \<rparr>"
proof -
  have "step1_token env_ok initial_session = Inr example_token"
    "getUserMedia env_ok = Inr (MediaStream [0])"
    "new_WebSocket env_ok = None" "new_AudioContext env_ok = None"
    by (simp_all add: step1_token_def env_ok_def initial_session_def)
  from start_all_succeed[OF this] show ?thesis
    by (simp add: fetching_def initial_session_def)
qed

text \<open>
  Claim C3, as the code has it.  When the credential is obtained, the microphone is granted
  and the socket and the audio pipeline are constructed, \<open>initializeTranscription\<close>
  leaves the state \<open>connecting\<close> with all handles held, and the socket's open event
  makes it \<open>connected\<close>.  When obtaining the credential throws, the state is \<open>error\<close>
  and neither the microphone nor a socket nor the audio pipeline is touched; when the
  microphone is refused, the state is \<open>error\<close> and no socket and no audio pipeline is
  created; when the socket constructor throws, the state is \<open>error\<close> and no audio
  pipeline is created.  A socket that was constructed and then fails to connect aborts
  nothing: the audio pipeline has been built by then, its error event sets \<open>error\<close> and
  the close event after it sets \<open>idle\<close>, stream, context and processor still held.
\<close>

theorem start_sequence:
  "(step1_token env s = Inr tok \<and> getUserMedia env = Inr stream
      \<and> new_WebSocket env = None \<and> new_AudioContext env = None \<longrightarrow>
        initializeTranscription env s =
          s\<lparr> connectionState := connecting,
             wsTokenRef := (if fetching env s then Some tok else wsTokenRef s),
             audioStreamRef := Some stream,
             wsRef := Some \<lparr>url = wsUrl_of tok (language s) (service s),
                             readyState = CONNECTING\<rparr>,
             audioContextRef := Some (AudioContext 16000),
             audioProcessorRef := Some (ScriptProcessorNode 4096 1 1),
             effects := effects s @ (if fetching env s then [FetchToken] else [])
               @ [GetUserMedia 1 16000, NewWebSocket (wsUrl_of tok (language s) (service s)),
                  NewAudioContext 16000, CreateMediaStreamSource,
                  CreateScriptProcessor 4096 1 1, ConnectNodes] \<rparr>
      \<and> ws_onopen (initializeTranscription env s) =
          s\<lparr> connectionState := connected,
             wsTokenRef := (if fetching env s then Some tok else wsTokenRef s),
             audioStreamRef := Some stream,
             wsRef := Some \<lparr>url = wsUrl_of tok (language s) (service s),
                             readyState = CONNECTING\<rparr>,
             audioContextRef := Some (AudioContext 16000),
             audioProcessorRef := Some (ScriptProcessorNode 4096 1 1),
             effects := effects s @ (if fetching env s then [FetchToken] else [])
               @ [GetUserMedia 1 16000, NewWebSocket (wsUrl_of tok (language s) (service s)),
                  NewAudioContext 16000, CreateMediaStreamSource,
                  CreateScriptProcessor 4096 1 1, ConnectNodes] \<rparr>
      \<and> ws_onerror (initializeTranscription env s) =
          s\<lparr> connectionState := error,
             wsTokenRef := (if fetching env s then Some tok else wsTokenRef s),
             audioStreamRef := Some stream,
             wsRef := Some \<lparr>url = wsUrl_of tok (language s) (service s),
                             readyState = CONNECTING\<rparr>,
             audioContextRef := Some (AudioContext 16000),
             audioProcessorRef := Some (ScriptProcessorNode 4096 1 1),
             effects := effects s @ (if fetching env s then [FetchToken] else [])
               @ [GetUserMedia 1 16000, NewWebSocket (wsUrl_of tok (language s) (service s)),
                  NewAudioContext 16000, CreateMediaStreamSource,
                  CreateScriptProcessor 4096 1 1, ConnectNodes] \<rparr>
      \<and> ws_onclose (ws_onerror (initializeTranscription env s)) =
          s\<lparr> connectionState := idle,
             wsTokenRef := (if fetching env s then Some tok else wsTokenRef s),
             audioStreamRef := Some stream,
             wsRef := Some \<lparr>url = wsUrl_of tok (language s) (service s),
                             readyState = CONNECTING\<rparr>,
             audioContextRef := Some (AudioContext 16000),
             audioProcessorRef := Some (ScriptProcessorNode 4096 1 1),
             effects := effects s @ (if fetching env s then [FetchToken] else [])
               @ [GetUserMedia 1 16000, NewWebSocket (wsUrl_of tok (language s) (service s)),
                  NewAudioContext 16000, CreateMediaStreamSource,
                  CreateScriptProcessor 4096 1 1, ConnectNodes] \<rparr>)
   \<and> (step1_token env s = Inl e \<longrightarrow>
        initializeTranscription env s =
          s\<lparr> connectionState := error,
             effects := effects s
               @ [FetchToken, Alert (''Failed to initialize transcription: '' @ err_message e)] \<rparr>)
   \<and> (step1_token env s = Inr tok \<and> getUserMedia env = Inl e \<longrightarrow>
        initializeTranscription env s =
          s\<lparr> connectionState := error,
             wsTokenRef := (if fetching env s then Some tok else wsTokenRef s),
             effects := effects s @ (if fetching env s then [FetchToken] else [])
               @ [GetUserMedia 1 16000,
                  Alert (''Failed to initialize transcription: '' @ err_message e)] \<rparr>)
   \<and> (step1_token env s = Inr tok \<and> getUserMedia env = Inr stream
      \<and> new_WebSocket env = Some e \<longrightarrow>
        initializeTranscription env s =
          s\<lparr> connectionState := error,
             wsTokenRef := (if fetching env s then Some tok else wsTokenRef s),
             audioStreamRef := Some stream,
             effects := effects s @ (if fetching env s then [FetchToken] else [])
               @ [GetUserMedia 1 16000, NewWebSocket (wsUrl_of tok (language s) (service s)),
                  Alert (''Failed to initialize transcription: '' @ err_message e)] \<rparr>)
   \<and> (step1_token env s = Inr tok \<and> getUserMedia env = Inr stream
      \<and> new_WebSocket env = None \<and> new_AudioContext env = Some e \<longrightarrow>
        initializeTranscription env s =
          s\<lparr> connectionState := error,
             wsTokenRef := (if fetching env s then Some tok else wsTokenRef s),
             audioStreamRef := Some stream,
             wsRef := Some \<lparr>url = wsUrl_of tok (language s) (service s),
                             readyState = CONNECTING\<rparr>,
             effects := effects s @ (if fetching env s then [FetchToken] else [])
               @ [GetUserMedia 1 16000, NewWebSocket (wsUrl_of tok (language s) (service s)),
                  NewAudioContext 16000,
                  Alert (''Failed to initialize transcription: '' @ err_message e)] \<rparr>)"
proof (intro conjI impI)
  assume a: "step1_token env s = Inr tok \<and> getUserMedia env = Inr stream
      \<and> new_WebSocket env = None \<and> new_AudioContext env = None"
  then have eq: "initializeTranscription env s =
          s\<lparr> connectionState := connecting,
             wsTokenRef := (if fetching env s then Some tok else wsTokenRef s),
             audioStreamRef := Some stream,
             wsRef := Some \<lparr>url = wsUrl_of tok (language s) (service s),
                             readyState = CONNECTING\<rparr>,
             audioContextRef := Some (AudioContext 16000),
             audioProcessorRef := Some (ScriptProcessorNode 4096 1 1),
             effects := effects s @ (if fetching env s then [FetchToken] else [])
               @ [GetUserMedia 1 16000, NewWebSocket (wsUrl_of tok (language s) (service s)),
                  NewAudioContext 16000, CreateMediaStreamSource,
                  CreateScriptProcessor 4096 1 1, ConnectNodes] \<rparr>"
    by (simp add: start_all_succeed)
  then show "initializeTranscription env s =
          s\<lparr> connectionState := connecting,
             wsTokenRef := (if fetching env s then Some tok else wsTokenRef s),
             audioStreamRef := Some stream,
             wsRef := Some \<lparr>url = wsUrl_of tok (language s) (service s),
                             readyState = CONNECTING\<rparr>,
             audioContextRef := Some (AudioContext 16000),
             audioProcessorRef := Some (ScriptProcessorNode 4096 1 1),
             effects := effects s @ (if fetching env s then [FetchToken] else [])
               @ [GetUserMedia 1 16000, NewWebSocket (wsUrl_of tok (language s) (service s)),
                  NewAudioContext 16000, CreateMediaStreamSource,
                  CreateScriptProcessor 4096 1 1, ConnectNodes] \<rparr>" .
  show "ws_onopen (initializeTranscription env s) =
          s\<lparr> connectionState := connected,
             wsTokenRef := (if fetching env s then Some tok else wsTokenRef s),
             audioStreamRef := Some stream,
             wsRef := Some \<lparr>url = wsUrl_of tok (language s) (service s),
                             readyState = CONNECTING\<rparr>,
             audioContextRef := Some (AudioContext 16000),
             audioProcessorRef := Some (ScriptProcessorNode 4096 1 1),
             effects := effects s @ (if fetching env s then [FetchToken] else [])
               @ [GetUserMedia 1 16000, NewWebSocket (wsUrl_of tok (language s) (service s)),
                  NewAudioContext 16000, CreateMediaStreamSource,
                  CreateScriptProcessor 4096 1 1, ConnectNodes] \<rparr>"
    by (simp add: eq ws_onopen_def)
  show "ws_onerror (initializeTranscription env s) =
          s\<lparr> connectionState := error,
             wsTokenRef := (if fetching env s then Some tok else wsTokenRef s),
             audioStreamRef := Some stream,
             wsRef := Some \<lparr>url = wsUrl_of tok (language s) (service s),
                             readyState = CONNECTING\<rparr>,
             audioContextRef := Some (AudioContext 16000),
             audioProcessorRef := Some (ScriptProcessorNode 4096 1 1),
             effects := effects s @ (if fetching env s then [FetchToken] else [])
               @ [GetUserMedia 1 16000, NewWebSocket (wsUrl_of tok (language s) (service s)),
                  NewAudioContext 16000, CreateMediaStreamSource,
                  CreateScriptProcessor 4096 1 1, ConnectNodes] \<rparr>"
    by (simp add: eq ws_onerror_def)
  show "ws_onclose (ws_onerror (initializeTranscription env s)) =
          s\<lparr> connectionState := idle,
             wsTokenRef := (if fetching env s then Some tok else wsTokenRef s),
             audioStreamRef := Some stream,
             wsRef := Some \<lparr>url = wsUrl_of tok (language s) (service s),
                             readyState = CONNECTING\<rparr>,
             audioContextRef := Some (AudioContext 16000),
             audioProcessorRef := Some (ScriptProcessorNode 4096 1 1),
             effects := effects s @ (if fetching env s then [FetchToken] else [])
               @ [GetUserMedia 1 16000, NewWebSocket (wsUrl_of tok (language s) (service s)),
                  NewAudioContext 16000, CreateMediaStreamSource,
                  CreateScriptProcessor 4096 1 1, ConnectNodes] \<rparr>"
    by (simp add: eq ws_onerror_def ws_onclose_def)
next
  assume "step1_token env s = Inl e"
  then show "initializeTranscription env s =
          s\<lparr> connectionState := error,
             effects := effects s
               @ [FetchToken, Alert (''Failed to initialize transcription: '' @ err_message e)] \<rparr>"
    by (rule start_fetch_fails)
next
  assume "step1_token env s = Inr tok \<and> getUserMedia env = Inl e"
  then show "initializeTranscription env s =
          s\<lparr> connectionState := error,
             wsTokenRef := (if fetching env s then Some tok else wsTokenRef s),
             effects := effects s @ (if fetching env s then [FetchToken] else [])
               @ [GetUserMedia 1 16000,
                  Alert (''Failed to initialize transcription: '' @ err_message e)] \<rparr>"
    by (simp add: start_microphone_fails)
next
  assume "step1_token env s = Inr tok \<and> getUserMedia env = Inr stream
      \<and> new_WebSocket env = Some e"
  then show "initializeTranscription env s =
          s\<lparr> connectionState := error,
             wsTokenRef := (if fetching env s then Some tok else wsTokenRef s),
             audioStreamRef := Some stream,
             effects := effects s @ (if fetching env s then [FetchToken] else [])
               @ [GetUserMedia 1 16000, NewWebSocket (wsUrl_of tok (language s) (service s)),
                  Alert (''Failed to initialize transcription: '' @ err_message e)] \<rparr>"
    by (simp add: start_socket_throws)
next
  assume "step1_token env s = Inr tok \<and> getUserMedia env = Inr stream
      \<and> new_WebSocket env = None \<and> new_AudioContext env = Some e"
  then show "initializeTranscription env s =
          s\<lparr> connectionState := error,
             wsTokenRef := (if fetching env s then Some tok else wsTokenRef s),
             audioStreamRef := Some stream,
             wsRef := Some \<lparr>url = wsUrl_of tok (language s) (service s),
                             readyState = CONNECTING\<rparr>,
             effects := effects s @ (if fetching env s then [FetchToken] else [])
               @ [GetUserMedia 1 16000, NewWebSocket (wsUrl_of tok (language s) (service s)),
                  NewAudioContext 16000,
                  Alert (''Failed to initialize transcription: '' @ err_message e)] \<rparr>"
    by (simp add: start_audio_context_throws)
qed

text \<open>The theorem on a start where everything succeeds, followed by the open event or by
  the error and close events of a refused connection, and on three starts where one step
  throws, each from the mounted component.\<close>

theorem start_sequence_witness:
  "connectionState (ws_onopen (initializeTranscription env_ok initial_session)) = connected
   \<and> audioProcessorRef (ws_onopen (initializeTranscription env_ok initial_session))
       = Some (ScriptProcessorNode 4096 1 1)
   \<and> connectionState (ws_onclose (ws_onerror (initializeTranscription env_ok initial_session)))
       = idle
   \<and> effects (initializeTranscription env_fetch_fails initial_session)
       = [FetchToken, Alert (''Failed to initialize transcription: ''
            @ ''Failed to fetch WebSocket token: 401 Unauthorized. Error: invalid token'')]
   \<and> connectionState (initializeTranscription env_fetch_fails initial_session) = error
   \<and> connectionState (initializeTranscription env_microphone_denied initial_session) = error
   \<and> wsRef (initializeTranscription env_microphone_denied initial_session) = None
   \<and> connectionState (initializeTranscription env_socket_throws initial_session) = error
   \<and> audioContextRef (initializeTranscription env_socket_throws initial_session) = None"
proof -
  have tok: "step1_token env_ok initial_session = Inr example_token"
    "step1_token env_microphone_denied initial_session = Inr example_token"
    "step1_token env_socket_throws initial_session = Inr example_token"
    by (simp_all add: step1_token_def env_ok_def initial_session_def
        env_microphone_denied_def env_socket_throws_def)
  have bad: "step1_token env_fetch_fails initial_session = Inl (JsError ''Error''
        ''Failed to fetch WebSocket token: 401 Unauthorized. Error: invalid token'')"
    by (simp add: step1_token_def env_fetch_fails_def env_ok_def initial_session_def)
  have ok: "getUserMedia env_ok = Inr (MediaStream [0])" "new_WebSocket env_ok = None"
    "new_AudioContext env_ok = None"
    by (simp_all add: env_ok_def)
  have mic: "getUserMedia env_microphone_denied
      = Inl (JsError ''NotAllowedError'' ''Permission denied'')"
    by (simp add: env_microphone_denied_def)
  have sock: "getUserMedia env_socket_throws = Inr (MediaStream [0])"
    "new_WebSocket env_socket_throws
      = Some (JsError ''SecurityError'' ''The operation is insecure.'')"
    by (simp_all add: env_socket_throws_def env_ok_def)
  have init: "effects initial_session = []" "wsRef initial_session = None"
    "audioContextRef initial_session = None"
    by (simp_all add: initial_session_def)
  have h1: "step1_token env_ok initial_session = Inr example_token
      \<and> getUserMedia env_ok = Inr (MediaStream [0])
      \<and> new_WebSocket env_ok = None \<and> new_AudioContext env_ok = None"
    using tok ok by simp
  note st = start_sequence[where env = env_ok and s = initial_session and tok = example_token
      and stream = "MediaStream [0]", THEN conjunct1, THEN mp, OF h1]
  note opened = st[THEN conjunct2, THEN conjunct1]
  note refused = st[THEN conjunct2, THEN conjunct2, THEN conjunct2]
  have 1: "connectionState (ws_onopen (initializeTranscription env_ok initial_session)) = connected"
    "audioProcessorRef (ws_onopen (initializeTranscription env_ok initial_session))
       = Some (ScriptProcessorNode 4096 1 1)"
    "connectionState (ws_onclose (ws_onerror (initializeTranscription env_ok initial_session)))
       = idle"
    by (simp_all add: opened refused)
  note failed = start_sequence[where env = env_fetch_fails and s = initial_session
      and e = "JsError ''Error''
        ''Failed to fetch WebSocket token: 401 Unauthorized. Error: invalid token''",
      THEN conjunct2, THEN conjunct1, THEN mp, OF bad]
  have 2: "effects (initializeTranscription env_fetch_fails initial_session)
       = [FetchToken, Alert (''Failed to initialize transcription: ''
            @ ''Failed to fetch WebSocket token: 401 Unauthorized. Error: invalid token'')]"
    "connectionState (initializeTranscription env_fetch_fails initial_session) = error"
    by (simp_all add: failed init)
  have h3: "step1_token env_microphone_denied initial_session = Inr example_token
      \<and> getUserMedia env_microphone_denied
          = Inl (JsError ''NotAllowedError'' ''Permission denied'')"
    using tok mic by simp
  note denied = start_sequence[where env = env_microphone_denied and s = initial_session
      and tok = example_token
      and e = "JsError ''NotAllowedError'' ''Permission denied''",
      THEN conjunct2, THEN conjunct2, THEN conjunct1, THEN mp, OF h3]
  have 3: "connectionState (initializeTranscription env_microphone_denied initial_session) = error"
    "wsRef (initializeTranscription env_microphone_denied initial_session) = None"
    by (simp_all add: denied init)
  have h4: "step1_token env_socket_throws initial_session = Inr example_token
      \<and> getUserMedia env_socket_throws = Inr (MediaStream [0])
      \<and> new_WebSocket env_socket_throws
          = Some (JsError ''SecurityError'' ''The operation is insecure.'')"
    using tok sock by simp
  note thrown = start_sequence[where env = env_socket_throws and s = initial_session
      and tok = example_token and stream = "MediaStream [0]"
      and e = "JsError ''SecurityError'' ''The operation is insecure.''",
      THEN conjunct2, THEN conjunct2, THEN conjunct2, THEN conjunct1, THEN mp, OF h4]
  have 4: "connectionState (initializeTranscription env_socket_throws initial_session) = error"
    "audioContextRef (initializeTranscription env_socket_throws initial_session) = None"
    by (simp_all add: thrown init)
  from 1 2 3 4 show ?thesis by blast
qed

text \<open>
  Claim C3 as stated fails: it has a start whose socket fails to open abort with state
  \<open>error\<close> and nothing of a later step acquired.  The socket is constructed without
  waiting for it to open, and the audio pipeline is built right after; when the
  connection is then refused, the error event finds stream, context and processor held,
  and the close event after it leaves the state \<open>idle\<close>.
\<close>

theorem refused_socket_counterexample:
  "connectionState (ws_onerror (initializeTranscription env_ok initial_session)) = error
   \<and> audioContextRef (ws_onerror (initializeTranscription env_ok initial_session))
       = Some (AudioContext 16000)
   \<and> audioProcessorRef (ws_onerror (initializeTranscription env_ok initial_session))
       = Some (ScriptProcessorNode 4096 1 1)
   \<and> NewAudioContext 16000
       \<in> set (effects (ws_onerror (initializeTranscription env_ok initial_session)))
   \<and> connectionState (ws_onclose (ws_onerror (initializeTranscription env_ok initial_session)))
       = idle
   \<and> audioStreamRef (ws_onclose (ws_onerror (initializeTranscription env_ok initial_session)))
       = Some (MediaStream [0])
   \<and> audioContextRef (ws_onclose (ws_onerror (initializeTranscription env_ok initial_session)))
       = Some (AudioContext 16000)
   \<and> audioProcessorRef (ws_onclose (ws_onerror (initializeTranscription env_ok initial_session)))
       = Some (ScriptProcessorNode 4096 1 1)"
  by (simp add: connecting_session ws_onerror_def ws_onclose_def)

subsection \<open>Credential caching\<close>



lemma fold_emit_tracks:
  "fold (\<lambda>track. emit (TrackStop track)) ts s = s\<lparr>effects := effects s @ map TrackStop ts\<rparr>"
  by (induction ts arbitrary: s) (simp_all add: emit_def)

lemma stop_eq:
  "stopTranscription s =
     s\<lparr> connectionState := idle,
        audioProcessorRef := None,
        audioContextRef := None,
        audioStreamRef := None,
        wsRef := (case wsRef s of None \<Rightarrow> None
                  | Some ws \<Rightarrow> if readyState ws = OPEN then None else Some ws),
        effects := effects s
          @ (case audioProcessorRef s of Some p \<Rightarrow> [ProcessorDisconnect] | None \<Rightarrow> [])
          @ (case audioContextRef s of Some c \<Rightarrow> [ContextClose] | None \<Rightarrow> [])
          @ (case audioStreamRef s of Some stream \<Rightarrow> map TrackStop (getTracks stream)
             | None \<Rightarrow> [])
          @ (case wsRef s of None \<Rightarrow> []
             | Some ws \<Rightarrow> if readyState ws = OPEN then [WsClose] else []) \<rparr>"
  by (simp add: stopTranscription_def Let_def emit_def fold_emit_tracks
      split: option.splits)



lemma invalid_date_never_expires:
  "wsTokenRef s = Some t \<Longrightarrow> Date_parse env (expires_at t) = None \<Longrightarrow> \<not> fetching env s"
  by (simp add: fetching_def expired_def)



subsection \<open>Stopping\<close>

text \<open>
  Claim C4, as the code has it.  From every state \<open>stopTranscription\<close> sets \<open>idle\<close>,
  disconnects the processor, closes the audio context and stops every track when they are
  held, in this order, and leaves the three audio handles \<open>null\<close>.  The socket is closed
  and its handle set to \<open>null\<close> only when its \<open>readyState\<close> is \<open>OPEN\<close>; a socket that
  is connecting, closing or closed is not touched and its handle stays.  A second call
  changes nothing, and with nothing held only the state is set.
\<close>

theorem stop_releases:
  "connectionState (stopTranscription s) = idle
   \<and> audioProcessorRef (stopTranscription s) = None
   \<and> audioContextRef (stopTranscription s) = None
   \<and> audioStreamRef (stopTranscription s) = None
   \<and> wsRef (stopTranscription s)
       = (case wsRef s of None \<Rightarrow> None
          | Some ws \<Rightarrow> if readyState ws = OPEN then None else Some ws)
   \<and> effects (stopTranscription s)
       = effects s
          @ (case audioProcessorRef s of Some p \<Rightarrow> [ProcessorDisconnect] | None \<Rightarrow> [])
          @ (case audioContextRef s of Some c \<Rightarrow> [ContextClose] | None \<Rightarrow> [])
          @ (case audioStreamRef s of Some stream \<Rightarrow> map TrackStop (getTracks stream)
             | None \<Rightarrow> [])
          @ (case wsRef s of None \<Rightarrow> []
             | Some ws \<Rightarrow> if readyState ws = OPEN then [WsClose] else [])
   \<and> stopTranscription (stopTranscription s) = stopTranscription s
   \<and> (audioProcessorRef s = None \<and> audioContextRef s = None \<and> audioStreamRef s = None
        \<and> wsRef s = None \<longrightarrow> stopTranscription s = s\<lparr>connectionState := idle\<rparr>)"
proof -
  have idem: "stopTranscription (stopTranscription s) = stopTranscription s"
    by (subst stop_eq[of "stopTranscription s"]) (simp add: stop_eq split: option.splits)
  have nothing: "stopTranscription s = s\<lparr>connectionState := idle\<rparr>"
    if "audioProcessorRef s = None \<and> audioContextRef s = None \<and> audioStreamRef s = None
        \<and> wsRef s = None"
    using that by (simp add: stop_eq)
  show ?thesis using idem nothing by (simp add: stop_eq)
qed

text \<open>The theorem on the mounted component (nothing held) and on a session whose socket
  has opened.\<close>

theorem stop_releases_witness:
  "stopTranscription initial_session = initial_session
   \<and> effects (stopTranscription
        ((initializeTranscription env_ok initial_session)
           \<lparr>wsRef := Some \<lparr>url = wsUrl_of example_token ''en-US'' ''deepgram'',
                            readyState = OPEN\<rparr>\<rparr>))
       = effects (initializeTranscription env_ok initial_session)
         @ [ProcessorDisconnect, ContextClose, TrackStop 0, WsClose]"
proof -
  have "audioProcessorRef initial_session = None \<and> audioContextRef initial_session = None
      \<and> audioStreamRef initial_session = None \<and> wsRef initial_session = None"
    by (simp add: initial_session_def)
  with stop_releases[of initial_session]
  have "stopTranscription initial_session = initial_session\<lparr>connectionState := idle\<rparr>"
    by blast
  then have 1: "stopTranscription initial_session = initial_session"
    by (simp add: initial_session_def)
  have 2: "effects (stopTranscription
        ((initializeTranscription env_ok initial_session)
           \<lparr>wsRef := Some \<lparr>url = wsUrl_of example_token ''en-US'' ''deepgram'',
                            readyState = OPEN\<rparr>\<rparr>))
       = effects (initializeTranscription env_ok initial_session)
         @ [ProcessorDisconnect, ContextClose, TrackStop 0, WsClose]"
    using stop_releases[of "(initializeTranscription env_ok initial_session)
           \<lparr>wsRef := Some \<lparr>url = wsUrl_of example_token ''en-US'' ''deepgram'',
                            readyState = OPEN\<rparr>\<rparr>"]
    by (simp add: connecting_session)
  from 1 2 show ?thesis by blast
qed

text \<open>
  Claim C4 as stated fails: it has every handle \<open>null\<close> or released after a stop.  A stop
  right after a successful start, while the socket is still connecting, neither closes
  the socket nor clears its handle.
\<close>

theorem stop_while_connecting_counterexample:
  "connectionState (initializeTranscription env_ok initial_session) = connecting
   \<and> map_option readyState (wsRef (stopTranscription
        (initializeTranscription env_ok initial_session))) = Some CONNECTING
   \<and> WsClose \<notin> set (effects (stopTranscription
        (initializeTranscription env_ok initial_session)))"
  by (simp add: connecting_session stop_eq)

subsection \<open>The close handler\<close>

text \<open>
  Claim C7, as the code has it.  The close handler sets the state to \<open>idle\<close> and does
  nothing else: the handles and the effects are as before, so audio resources that were
  held stay held, and a later stop releases exactly what a stop without the close event
  would have released.
\<close>

theorem close_handler:
  "connectionState (ws_onclose s) = idle
   \<and> audioProcessorRef (ws_onclose s) = audioProcessorRef s
   \<and> audioContextRef (ws_onclose s) = audioContextRef s
   \<and> audioStreamRef (ws_onclose s) = audioStreamRef s
   \<and> wsRef (ws_onclose s) = wsRef s
   \<and> effects (ws_onclose s) = effects s
   \<and> stopTranscription (ws_onclose s) = stopTranscription s"
  by (simp add: ws_onclose_def stop_eq)

text \<open>
  Claim C7 as stated fails: it has the close handler release the audio resources.  After a
  successful start the close event leaves processor, context and stream held, and no
  disconnect, close or track stop happens.
\<close>

theorem close_keeps_audio_counterexample:
  "audioProcessorRef (ws_onclose (initializeTranscription env_ok initial_session))
       = Some (ScriptProcessorNode 4096 1 1)
   \<and> audioContextRef (ws_onclose (initializeTranscription env_ok initial_session))
       = Some (AudioContext 16000)
   \<and> audioStreamRef (ws_onclose (initializeTranscription env_ok initial_session))
       = Some (MediaStream [0])
   \<and> ProcessorDisconnect \<notin> set (effects (ws_onclose (initializeTranscription env_ok initial_session)))
   \<and> ContextClose \<notin> set (effects (ws_onclose (initializeTranscription env_ok initial_session)))
   \<and> TrackStop 0 \<notin> set (effects (ws_onclose (initializeTranscription env_ok initial_session)))"
  by (simp add: connecting_session ws_onclose_def)

subsection \<open>The transcript\<close>

lemma message_prefix:
  "take (length (transcript s)) (transcript (ws_onmessage m s)) = transcript s"
  by (simp add: ws_onmessage_def split: option.splits json.splits)

lemma start_keeps_transcript:
  "transcript (initializeTranscription env s) = transcript s"
  "interimTranscript (initializeTranscription env s) = interimTranscript s"
  by (simp_all add: initializeTranscription_def Let_def emit_def init_failed_def
      split: sum.splits option.splits)

text \<open>
  Claim C9.  \<open>stopTranscription\<close> leaves the finalized segments and the interim segment
  as they were, in every state; \<open>clearTranscript\<close> empties both.  No other operation
  shortens the finalized sequence: a start and the open, error and close handlers leave
  both buffers alone, and the message handler keeps the finalized segments as a prefix.
\<close>

theorem stop_keeps_transcript:
  "transcript (stopTranscription s) = transcript s
   \<and> interimTranscript (stopTranscription s) = interimTranscript s
   \<and> transcript (clearTranscript s) = []
   \<and> interimTranscript (clearTranscript s) = JStr ''''
   \<and> transcript (initializeTranscription env s) = transcript s
   \<and> interimTranscript (initializeTranscription env s) = interimTranscript s
   \<and> transcript (ws_onopen s) = transcript s
   \<and> interimTranscript (ws_onopen s) = interimTranscript s
   \<and> transcript (ws_onerror s) = transcript s
   \<and> interimTranscript (ws_onerror s) = interimTranscript s
   \<and> transcript (ws_onclose s) = transcript s
   \<and> interimTranscript (ws_onclose s) = interimTranscript s
   \<and> take (length (transcript s)) (transcript (ws_onmessage m s)) = transcript s"
  by (simp add: stop_eq clearTranscript_def start_keeps_transcript ws_onopen_def
      ws_onerror_def ws_onclose_def message_prefix)

subsection \<open>Message routing\<close>

lemma extract_transcript_message [simp]:
  "extract_transcript (transcript_message str final) = Some (JStr str)"
  "get_prop (transcript_message str final) ''is_final'' = Some (JBool final)"
  "get_prop (transcript_message str final) ''error'' = None"
  by (simp_all add: extract_transcript_def transcript_message_def opt_prop_def opt_index0_def)

lemma extract_null: "extract_transcript JNull = None"
  by (simp add: extract_transcript_def opt_prop_def opt_index0_def)

lemma message_accepted:
  assumes "\<not> truthy_opt (get_prop data ''error'')" "extract_transcript data = Some t" "truthy t"
  shows "ws_onmessage (Some data) s =
     (if truthy_opt (get_prop data ''is_final'')
      then s\<lparr>transcript := transcript s @ [t], interimTranscript := JStr ''''\<rparr>
      else s\<lparr>interimTranscript := t\<rparr>)"
proof -
  have "data \<noteq> JNull" using assms(2) by (auto simp: extract_null)
  then show ?thesis using assms by (cases data) (simp_all add: ws_onmessage_def)
qed

lemma message_ignored:
  assumes "truthy_opt (get_prop data ''error'') \<or> extract_transcript data = None
      \<or> (\<exists>t. extract_transcript data = Some t \<and> \<not> truthy t)"
  shows "ws_onmessage (Some data) s = s"
  using assms by (cases data) (auto simp: ws_onmessage_def)

text \<open>
  Claim C5, as the code has it.  For a parsed message without a truthy \<open>error\<close> field
  whose \<open>channel.alternatives[0].transcript\<close> is truthy (a non-empty string, say): when
  \<open>is_final\<close> is falsy the interim segment becomes the transcript and nothing else
  changes; when \<open>is_final\<close> is truthy the transcript is appended to the finalized sequence
  and the interim segment becomes the empty string.  A message with a truthy \<open>error\<close>
  field, without a transcript or with a falsy transcript (the empty string), and a frame
  that is not JSON, change nothing.
\<close>

theorem message_routing:
  "(\<not> truthy_opt (get_prop data ''error'') \<and> extract_transcript data = Some t \<and> truthy t \<longrightarrow>
       (\<not> truthy_opt (get_prop data ''is_final'') \<longrightarrow>
          ws_onmessage (Some data) s = s\<lparr>interimTranscript := t\<rparr>)
     \<and> (truthy_opt (get_prop data ''is_final'') \<longrightarrow>
          ws_onmessage (Some data) s
            = s\<lparr>transcript := transcript s @ [t], interimTranscript := JStr ''''\<rparr>))
   \<and> (truthy_opt (get_prop data ''error'') \<or> extract_transcript data = None
        \<or> (\<exists>t. extract_transcript data = Some t \<and> \<not> truthy t) \<longrightarrow>
          ws_onmessage (Some data) s = s)
   \<and> ws_onmessage None s = s
   \<and> (str \<noteq> [] \<longrightarrow>
         ws_onmessage (Some (transcript_message str False)) s = s\<lparr>interimTranscript := JStr str\<rparr>
       \<and> ws_onmessage (Some (transcript_message str True)) s
           = s\<lparr>transcript := transcript s @ [JStr str], interimTranscript := JStr ''''\<rparr>)"
proof (intro conjI impI)
  assume a: "\<not> truthy_opt (get_prop data ''error'') \<and> extract_transcript data = Some t \<and> truthy t"
  then have eq: "ws_onmessage (Some data) s =
     (if truthy_opt (get_prop data ''is_final'')
      then s\<lparr>transcript := transcript s @ [t], interimTranscript := JStr ''''\<rparr>
      else s\<lparr>interimTranscript := t\<rparr>)"
    by (simp add: message_accepted)
  {
    assume "\<not> truthy_opt (get_prop data ''is_final'')"
    then show "ws_onmessage (Some data) s = s\<lparr>interimTranscript := t\<rparr>" by (simp add: eq)
  }
  {
    assume "truthy_opt (get_prop data ''is_final'')"
    then show "ws_onmessage (Some data) s
            = s\<lparr>transcript := transcript s @ [t], interimTranscript := JStr ''''\<rparr>"
      by (simp add: eq)
  }
next
  assume "truthy_opt (get_prop data ''error'') \<or> extract_transcript data = None
        \<or> (\<exists>t. extract_transcript data = Some t \<and> \<not> truthy t)"
  then show "ws_onmessage (Some data) s = s" by (rule message_ignored)
next
  show "ws_onmessage None s = s" by (simp add: ws_onmessage_def)
next
  assume "str \<noteq> []"
  then show "ws_onmessage (Some (transcript_message str False)) s
      = s\<lparr>interimTranscript := JStr str\<rparr>"
    by (simp add: message_accepted truthy_opt_def)
next
  assume "str \<noteq> []"
  then show "ws_onmessage (Some (transcript_message str True)) s
           = s\<lparr>transcript := transcript s @ [JStr str], interimTranscript := JStr ''''\<rparr>"
    by (simp add: message_accepted truthy_opt_def)
qed

text \<open>The theorem on the two messages of the specification: an interim \<open>hi\<close>, then a
  final \<open>hi there\<close>.\<close>

theorem message_routing_witness:
  "interimTranscript (ws_onmessage (Some (transcript_message ''hi'' False)) initial_session)
       = JStr ''hi''
   \<and> transcript (ws_onmessage (Some (transcript_message ''hi'' False)) initial_session) = []
   \<and> transcript (ws_onmessage (Some (transcript_message ''hi there'' True))
        (ws_onmessage (Some (transcript_message ''hi'' False)) initial_session))
       = [JStr ''hi there'']
   \<and> interimTranscript (ws_onmessage (Some (transcript_message ''hi there'' True))
        (ws_onmessage (Some (transcript_message ''hi'' False)) initial_session))
       = JStr ''''
   \<and> ws_onmessage (Some message_without_transcript) session_with_interim = session_with_interim"
proof -
  have none: "extract_transcript message_without_transcript = None"
    by (simp add: extract_transcript_def message_without_transcript_def opt_prop_def
        opt_index0_def)
  have 1: "ws_onmessage (Some (transcript_message ''hi'' False)) initial_session
      = initial_session\<lparr>interimTranscript := JStr ''hi''\<rparr>"
    using message_routing[where str = "''hi''" and s = initial_session] by simp
  have 2: "ws_onmessage (Some (transcript_message ''hi there'' True))
        (initial_session\<lparr>interimTranscript := JStr ''hi''\<rparr>)
      = initial_session\<lparr>transcript := [JStr ''hi there''], interimTranscript := JStr ''''\<rparr>"
    using message_routing[where str = "''hi there''"
        and s = "initial_session\<lparr>interimTranscript := JStr ''hi''\<rparr>"]
    by (simp add: initial_session_def)
  have 3: "ws_onmessage (Some message_without_transcript) session_with_interim
      = session_with_interim"
    using message_routing[where data = message_without_transcript
        and s = session_with_interim] none
    by blast
  show ?thesis using 3 by (simp add: 1 2) (simp add: initial_session_def)
qed

text \<open>
  Claim C5 as stated fails: it has every message that carries a transcript and is final
  append it and clear the interim segment.  A final message whose transcript is the empty
  string appends nothing and leaves the interim segment \<open>hi\<close> in place.
\<close>

theorem empty_final_counterexample:
  "extract_transcript (transcript_message '''' True) = Some (JStr '''')
   \<and> get_prop (transcript_message '''' True) ''is_final'' = Some (JBool True)
   \<and> transcript (ws_onmessage (Some (transcript_message '''' True)) session_with_interim) = []
   \<and> interimTranscript (ws_onmessage (Some (transcript_message '''' True)) session_with_interim)
       = JStr ''hi''"
  by (simp add: message_ignored session_with_interim_def initial_session_def)

text \<open>
  Claim C8.  A message whose \<open>channel.alternatives[0].transcript\<close> is the empty string
  leaves the state as it is, whatever \<open>is_final\<close> says, and so does a message without a
  transcript: nothing is appended and the interim segment is not cleared.
\<close>

theorem empty_transcript_ignored:
  "(extract_transcript data = Some (JStr '''') \<longrightarrow> ws_onmessage (Some data) s = s)
   \<and> (extract_transcript data' = None \<longrightarrow> ws_onmessage (Some data') s = s)
   \<and> ws_onmessage (Some (transcript_message '''' final)) s = s"
proof (intro conjI impI)
  assume "extract_transcript data = Some (JStr '''')"
  then have "\<exists>t. extract_transcript data = Some t \<and> \<not> truthy t" by simp
  then show "ws_onmessage (Some data) s = s" by (simp add: message_ignored)
next
  assume "extract_transcript data' = None"
  then show "ws_onmessage (Some data') s = s" by (simp add: message_ignored)
next
  show "ws_onmessage (Some (transcript_message '''' final)) s = s"
    by (simp add: message_ignored)
qed

text \<open>The theorem on a final message with an empty transcript and on a message with no
  alternatives, both arriving while the interim segment is \<open>hi\<close>.\<close>

theorem empty_transcript_ignored_witness:
  "ws_onmessage (Some (transcript_message '''' True)) session_with_interim
     = ws_onmessage (Some message_without_transcript) session_with_interim
   \<and> interimTranscript (ws_onmessage (Some (transcript_message '''' True)) session_with_interim)
       = JStr ''hi''
   \<and> transcript (ws_onmessage (Some (transcript_message '''' True)) session_with_interim) = []"
proof -
  have none: "extract_transcript message_without_transcript = None"
    by (simp add: extract_transcript_def message_without_transcript_def opt_prop_def
        opt_index0_def)
  have empty: "extract_transcript (transcript_message '''' True) = Some (JStr '''')"
    by simp
  from empty_transcript_ignored[where data = "transcript_message '''' True"
      and data' = message_without_transcript and s = session_with_interim] none empty
  have "ws_onmessage (Some (transcript_message '''' True)) session_with_interim
      = session_with_interim"
    "ws_onmessage (Some message_without_transcript) session_with_interim = session_with_interim"
    by blast+
  then show ?thesis by (simp add: session_with_interim_def initial_session_def)
qed

end
